theory Spec2Isabelle
  imports Main "HOL-Library.Sublist"
begin

section \<open>JavaScript values and strings\<close>

text \<open>
  The \<open>body\<close> parameter of \<open>request\<close> has the TypeScript type \<open>unknown\<close>. It is
  modelled by the JSON-like values below; \<open>JUndefined\<close> is the value of an omitted
  argument. Numbers are restricted to the integers and \<open>NaN\<close>; strings are lists of
  code units below 256.
\<close>

datatype jsval =
    JUndefined
  | JNull
  | JBool bool
  | JNumber int
  | JNaN
  | JString string
  | JArray "jsval list"
  | JObject "(string \<times> jsval) list"

text \<open>JavaScript's \<open>ToBoolean\<close>, as applied by \<open>if (body)\<close> and \<open>body ? _ : _\<close>.\<close>

fun truthy :: "jsval \<Rightarrow> bool" where
  "truthy JUndefined = False"
| "truthy JNull = False"
| "truthy (JBool b) = b"
| "truthy (JNumber n) = (n \<noteq> 0)"
| "truthy JNaN = False"
| "truthy (JString s) = (s \<noteq> [])"
| "truthy (JArray _) = True"
| "truthy (JObject _) = True"

text \<open>Decimal rendering of a non-negative integer, as the template literal
  \<open>`${response.status}`\<close> produces it.\<close>

definition digit_char :: "nat \<Rightarrow> char" where
  "digit_char d = ''0123456789'' ! d"

fun string_of_nat :: "nat \<Rightarrow> string" where
  "string_of_nat n =
     (if n < 10 then [digit_char n]
      else string_of_nat (n div 10) @ [digit_char (n mod 10)])"

declare string_of_nat.simps [simp del]

text \<open>
  The characters removed by \<open>String.prototype.trim\<close> (white space and line
  terminators) among the code units below 256: TAB, LF, VT, FF, CR, SPACE and
  NO-BREAK SPACE.
\<close>

definition is_js_whitespace :: "char \<Rightarrow> bool" where
  "is_js_whitespace c =
     (c = CHR 0x09 \<or> c = CHR 0x0A \<or> c = CHR 0x0B \<or> c = CHR 0x0C \<or>
      c = CHR 0x0D \<or> c = CHR 0x20 \<or> c = CHR 0xA0)"

definition trimStart :: "string \<Rightarrow> string" where
  "trimStart s = dropWhile is_js_whitespace s"

definition trimEnd :: "string \<Rightarrow> string" where
  "trimEnd s = rev (dropWhile is_js_whitespace (rev s))"

definition trim :: "string \<Rightarrow> string" where
  "trim s = trimEnd (trimStart s)"

text \<open>\<open>Array.prototype.join\<close> on an array of strings.\<close>

fun join :: "string \<Rightarrow> string list \<Rightarrow> string" where
  "join sep [] = []"
| "join sep [x] = x"
| "join sep (x # y # ys) = x @ sep @ join sep (y # ys)"

section \<open>Data model\<close>

text \<open>
  Modelled from the spec: the type declarations of the module \<open>./types\<close>
  (\<open>DriftConfig\<close>, \<open>Context\<close>, \<open>Fact\<close>), which \<open>client.ts\<close> imports. The
  records carry the fields that \<open>client.ts\<close> reads; \<open>hosted\<close> is the optional
  flag that the README documents for the configuration. The type parameters \<open>'m\<close>
  and \<open>'f\<close> stand for whatever further fields a message and a fact carry besides
  those that \<open>buildPrompt\<close> projects out.
\<close>

record DriftConfig =
  baseUrl :: string
  apiKey :: "string option"
  timeout :: "int option"
  hosted :: "bool option"

record Fact =
  key :: string
  "value" :: string

record Message =
  role :: string
  content :: string

record 'f BranchFactSet =
  branchId :: string
  branchTopic :: string
  isCurrent :: bool
  facts :: "'f Fact_scheme list"

record ('m, 'f) Context =
  branchTopic :: string
  messages :: "'m Message_scheme list"
  allFacts :: "'f BranchFactSet list"

text \<open>
  Modelled from the spec: the result of \<open>response.json()\<close> on a well-formed body,
  \<open>{success, data, error: {message}}\<close>, with \<open>data\<close>, \<open>error\<close> and
  \<open>error.message\<close> optional (\<open>None\<close> is JavaScript's \<open>undefined\<close>).
\<close>

record ErrorInfo =
  message :: "string option"

record 'a Envelope =
  success :: bool
  data :: "'a option"
  error :: "ErrorInfo option"

section \<open>The client and its environment\<close>

text \<open>The private fields of class \<open>DriftClient\<close>.\<close>

record DriftClient =
  baseUrl :: string
  apiKey :: "string option"
  timeout :: int

text \<open>Line 16: \<open>replace(/\/$/, '')\<close> removes one slash at the very end of the input.\<close>

definition strip_trailing_slash :: "string \<Rightarrow> string" where
  "strip_trailing_slash s =
     (if s \<noteq> [] \<and> last s = CHR ''/'' then butlast s else s)"

text \<open>The constructor, lines 15 to 19.\<close>

definition new_DriftClient :: "DriftConfig \<Rightarrow> DriftClient" where
  "new_DriftClient config =
     \<lparr> baseUrl = strip_trailing_slash (DriftConfig.baseUrl config),
       apiKey = DriftConfig.apiKey config,
       timeout = (case DriftConfig.timeout config of None \<Rightarrow> 10000 | Some t \<Rightarrow> t) \<rparr>"

text \<open>
  What \<open>request\<close> can end with. \<open>RequestError\<close> is the \<open>Error\<close> constructed on
  line 50; the others come from the platform calls awaited inside the \<open>try\<close> block:
  \<open>TimeoutError\<close> is the rejection of \<open>fetch\<close> or \<open>response.json()\<close> once the
  signal given to \<open>fetch\<close> has been aborted, \<open>ProtocolError\<close> the rejection of
  \<open>response.json()\<close> on a body that is not JSON, \<open>NetworkError\<close> the rejection of
  \<open>fetch\<close> when no response can be obtained, and \<open>TypeError\<close> a property read on
  \<open>undefined\<close>. \<open>NeverSettles\<close> stands for an awaited promise that neither
  resolves nor rejects, so that the call does not return.
\<close>

datatype error =
    RequestError string
  | TimeoutError
  | ProtocolError
  | NetworkError
  | TypeError
  | NeverSettles

text \<open>The arguments of one call of \<open>fetch\<close>. The \<open>body\<close> field holds the value
  handed to \<open>JSON.stringify\<close>, or \<open>None\<close> for \<open>undefined\<close>; \<open>signal\<close> holds the
  handle of the controller whose signal is passed, if any.\<close>

record FetchCall =
  url :: string
  "method" :: string
  headers :: "(string \<times> string) list"
  body :: "jsval option"
  signal :: "nat option"

text \<open>
  What the network does with a call. It answers with a status and a body, it fails,
  or it stays silent; an answer or a failure comes at once or a number of
  milliseconds after the call. A body can be an envelope, the JSON value \<open>null\<close>,
  text that is not JSON, or a stream that does not come to an end. (Any other JSON
  value reads like an envelope: a missing \<open>success\<close> is falsy, and \<open>error?.message\<close>
  on something without that property is \<open>undefined\<close>.)
\<close>

datatype 'a BodyOutcome =
    Parsed "'a Envelope"
  | Malformed
  | BodyStalled
  | JsonNull

datatype 'a NetOutcome =
    Responded nat "'a BodyOutcome"
  | NetworkFailure
  | NoResponse
  | RespondedAfter nat nat "'a BodyOutcome"
  | NetworkFailureAfter nat

text \<open>A scheduled timer: its handle, the time in milliseconds at which it is due,
  and the controller that its callback \<open>() => controller.abort()\<close> aborts.\<close>

record Timer =
  handle :: nat
  due :: int
  aborts :: nat

text \<open>
  The observable state of the platform: the clock in milliseconds, the next fresh
  handle, the timers that are scheduled, the calls handed to \<open>fetch\<close>, and the
  controllers that have been aborted.
\<close>

record World =
  now :: int
  nextHandle :: nat
  armed :: "Timer list"
  fetched :: "FetchCall list"
  aborted :: "nat list"

text \<open>Line 26: \<open>new AbortController()\<close>.\<close>

definition new_AbortController :: "World \<Rightarrow> nat \<times> World" where
  "new_AbortController w = (nextHandle w, w\<lparr> nextHandle := Suc (nextHandle w) \<rparr>)"

text \<open>The platform's reading of a timer delay: a delay below 1 or above
  \<open>2^31 - 1\<close> milliseconds counts as 1.\<close>

definition effective_delay :: "int \<Rightarrow> int" where
  "effective_delay ms = (if 1 \<le> ms \<and> ms \<le> 2147483647 then ms else 1)"

text \<open>Line 27: \<open>setTimeout(() => controller.abort(), ms)\<close>.\<close>

definition setTimeout :: "nat \<Rightarrow> int \<Rightarrow> World \<Rightarrow> nat \<times> World" where
  "setTimeout controller ms w =
     (nextHandle w,
      w\<lparr> nextHandle := Suc (nextHandle w),
         armed := \<lparr> handle = nextHandle w, due = now w + effective_delay ms,
                    aborts = controller \<rparr> # armed w \<rparr>)"

definition clearTimeout :: "nat \<Rightarrow> World \<Rightarrow> World" where
  "clearTimeout t w = w\<lparr> armed := filter (\<lambda>tm. handle tm \<noteq> t) (armed w) \<rparr>"

text \<open>
  The clock reaches \<open>t\<close>: every scheduled timer that is due by then has run out. It
  has left the schedule and its callback has aborted its controller.
\<close>

definition advance :: "int \<Rightarrow> World \<Rightarrow> World" where
  "advance t w =
     w\<lparr> now := max (now w) t,
        armed := filter (\<lambda>tm. t < due tm) (armed w),
        aborted := aborted w @ map aborts (filter (\<lambda>tm. due tm \<le> t) (armed w)) \<rparr>"

text \<open>
  A pending call is cut short when its signal is aborted: that has happened already,
  or a scheduled timer whose callback aborts the signal's controller runs out, up to
  the time \<open>limit\<close> if there is one and at any time otherwise. The result is the
  platform at that moment, or \<open>None\<close> when the signal is not aborted (in time): no
  signal, or no such timer. A timer that is due at the very instant \<open>limit\<close> counts
  as in time.
\<close>

definition abort_by :: "int option \<Rightarrow> FetchCall \<Rightarrow> World \<Rightarrow> World option" where
  "abort_by limit call w =
     (case signal call of
        None \<Rightarrow> None
      | Some c \<Rightarrow>
          if c \<in> set (aborted w) then Some w
          else (case find (\<lambda>tm. aborts tm = c \<and>
                                (case limit of None \<Rightarrow> True | Some t \<Rightarrow> due tm \<le> t))
                       (armed w) of
                  None \<Rightarrow> None
                | Some tm \<Rightarrow> Some (advance (due tm) w)))"

text \<open>\<open>response.ok\<close>: the status is in the range 200 to 299.\<close>

definition response_ok :: "nat \<Rightarrow> bool" where
  "response_ok status = (200 \<le> status \<and> status \<le> 299)"

text \<open>Line 50: \<open>data.error?.message ?? `Request failed: ${response.status}`\<close>.\<close>

definition envelope_message :: "'a Envelope \<Rightarrow> string option" where
  "envelope_message env = (case error env of None \<Rightarrow> None | Some e \<Rightarrow> message e)"

definition error_message :: "'a Envelope \<Rightarrow> nat \<Rightarrow> string" where
  "error_message env status =
     (case envelope_message env of
        Some m \<Rightarrow> m
      | None \<Rightarrow> ''Request failed: '' @ string_of_nat status)"

text \<open>
  The object and the platform together: \<open>this\<close> holds the fields of the client,
  \<open>world\<close> the platform. A method takes the state and returns its result with the
  state after the call.
\<close>

record State =
  this :: DriftClient
  world :: World

text \<open>A platform on which nothing is scheduled and nothing has been sent, a client
  freshly constructed on it, and a network that treats every call alike.\<close>

definition idle_world :: World where
  "idle_world = \<lparr> now = 0, nextHandle = 0, armed = [], fetched = [], aborted = [] \<rparr>"

definition fresh_state :: "DriftConfig \<Rightarrow> State" where
  "fresh_state config = \<lparr> this = new_DriftClient config, world = idle_world \<rparr>"

definition constant_net :: "'a NetOutcome \<Rightarrow> FetchCall \<Rightarrow> 'a NetOutcome" where
  "constant_net outcome call = outcome"

text \<open>Lines 29 to 37.\<close>

definition request_headers :: "DriftClient \<Rightarrow> jsval \<Rightarrow> (string \<times> string) list" where
  "request_headers c b =
     (if truthy b then [(''Content-Type'', ''application/json'')] else []) @
     (case apiKey c of
        None \<Rightarrow> []
      | Some k \<Rightarrow> if k \<noteq> [] then [(''Authorization'', ''Bearer '' @ k)] else [])"

text \<open>Lines 40 to 45: the arguments of \<open>fetch\<close>.\<close>

definition fetch_call :: "DriftClient \<Rightarrow> string \<Rightarrow> string \<Rightarrow> jsval \<Rightarrow> nat \<Rightarrow> FetchCall" where
  "fetch_call c meth path b controller =
     \<lparr> url = baseUrl c @ path,
       method = meth,
       headers = request_headers c b,
       body = (if truthy b then Some b else None),
       signal = Some controller \<rparr>"

text \<open>
  Lines 40 to 53: the \<open>try\<close> block once \<open>fetch\<close> has been called, up to the
  \<open>return\<close> or the exception that leaves it. \<open>unanswered\<close> is a call that nothing
  but its signal can end; \<open>answered\<close> is lines 47 to 53 on a response whose status
  line has arrived; \<open>settle\<close> adds the time that the network takes.
\<close>

definition unanswered :: "FetchCall \<Rightarrow> World \<Rightarrow> (error + 'a option) \<times> World" where
  "unanswered call w =
     (case abort_by None call w of
        None \<Rightarrow> (Inl NeverSettles, w)
      | Some w' \<Rightarrow> (Inl TimeoutError, w'))"

definition answered ::
  "FetchCall \<Rightarrow> nat \<Rightarrow> 'a BodyOutcome \<Rightarrow> World \<Rightarrow> (error + 'a option) \<times> World" where
  "answered call status b w =
     (case b of
        BodyStalled \<Rightarrow> unanswered call w
      | Malformed \<Rightarrow> (Inl ProtocolError, w)
      | JsonNull \<Rightarrow> (Inl TypeError, w)
      | Parsed env \<Rightarrow>
          if \<not> response_ok status \<or> \<not> success env
          then (Inl (RequestError (error_message env status)), w)
          else (Inr (data env), w))"

definition settle ::
  "FetchCall \<Rightarrow> 'a NetOutcome \<Rightarrow> World \<Rightarrow> (error + 'a option) \<times> World" where
  "settle call outcome w =
     (case outcome of
        NoResponse \<Rightarrow> unanswered call w
      | NetworkFailure \<Rightarrow> (Inl NetworkError, w)
      | Responded status b \<Rightarrow> answered call status b w
      | RespondedAfter ms status b \<Rightarrow>
          (case abort_by (Some (now w + int ms)) call w of
             Some w' \<Rightarrow> (Inl TimeoutError, w')
           | None \<Rightarrow> answered call status b (advance (now w + int ms) w))
      | NetworkFailureAfter ms \<Rightarrow>
          (case abort_by (Some (now w + int ms)) call w of
             Some w' \<Rightarrow> (Inl TimeoutError, w')
           | None \<Rightarrow> (Inl NetworkError, advance (now w + int ms) w)))"

text \<open>The private method \<open>request\<close>, lines 21 to 57. The \<open>finally\<close> clause is the
  last step on every path on which the \<open>try\<close> block is left.\<close>

definition request ::
  "State \<Rightarrow> (FetchCall \<Rightarrow> 'a NetOutcome) \<Rightarrow> string \<Rightarrow> string \<Rightarrow> jsval
     \<Rightarrow> (error + 'a option) \<times> State" where
  "request s net meth path b =
     (let (controller, w0) = new_AbortController (world s);
          (timeoutId, w1) = setTimeout controller (timeout (this s)) w0;
          call = fetch_call (this s) meth path b controller;
          w2 = w1\<lparr> fetched := fetched w1 @ [call] \<rparr>;
          (result, w3) = settle call (net call) w2
      in if result = Inl NeverSettles then (result, s\<lparr> world := w3 \<rparr>)
         else (result, s\<lparr> world := clearTimeout timeoutId w3 \<rparr>))"

section \<open>The named operations\<close>

text \<open>Lines 62 to 100. An omitted \<open>role\<close> is \<open>None\<close>.\<close>

definition route ::
  "State \<Rightarrow> (FetchCall \<Rightarrow> 'a NetOutcome) \<Rightarrow> string \<Rightarrow> string \<Rightarrow> string option
     \<Rightarrow> (error + 'a option) \<times> State" where
  "route s net conversationId content_arg role_arg =
     request s net ''POST'' ''/api/v1/drift/route''
       (JObject [(''conversationId'', JString conversationId),
                 (''content'', JString content_arg),
                 (''role'', JString (case role_arg of None \<Rightarrow> ''user'' | Some r \<Rightarrow> r))])"

definition getBranches ::
  "State \<Rightarrow> (FetchCall \<Rightarrow> 'a NetOutcome) \<Rightarrow> string \<Rightarrow> (error + 'a option) \<times> State" where
  "getBranches s net conversationId =
     request s net ''GET'' (''/api/v1/drift/branches/'' @ conversationId) JUndefined"

definition getContext ::
  "State \<Rightarrow> (FetchCall \<Rightarrow> 'a NetOutcome) \<Rightarrow> string \<Rightarrow> (error + 'a option) \<times> State" where
  "getContext s net branch =
     request s net ''GET'' (''/api/v1/context/'' @ branch) JUndefined"

definition extractFacts ::
  "State \<Rightarrow> (FetchCall \<Rightarrow> 'a NetOutcome) \<Rightarrow> string \<Rightarrow> (error + 'a option) \<times> State" where
  "extractFacts s net branch =
     request s net ''POST'' (''/api/v1/facts/'' @ branch @ ''/extract'') JUndefined"

definition getFacts ::
  "State \<Rightarrow> (FetchCall \<Rightarrow> 'a NetOutcome) \<Rightarrow> string \<Rightarrow> (error + 'a option) \<times> State" where
  "getFacts s net branch =
     request s net ''GET'' (''/api/v1/facts/'' @ branch) JUndefined"

section \<open>Prompt assembly\<close>

text \<open>The argument of the template function, lines 120 to 125.\<close>

record TemplateContext =
  systemPrompt :: string
  branchTopic :: string
  facts :: "Fact list"
  otherTopics :: "string list"

text \<open>The options object, lines 115 to 126; an omitted field is \<open>None\<close>.\<close>

record PromptOptions =
  systemPrompt :: "string option"
  includeOtherTopics :: "bool option"
  includeFacts :: "bool option"
  factsFromAllBranches :: "bool option"
  template :: "(TemplateContext \<Rightarrow> string) option"

text \<open>The second argument of \<open>buildPrompt\<close>: omitted, a string, or an options object.\<close>

datatype PromptArg =
    Omitted
  | LegacyString string
  | Options PromptOptions

record Prompt =
  system :: string
  messages :: "Message list"

text \<open>Lines 131 to 133.\<close>

definition no_options :: PromptOptions where
  "no_options =
     \<lparr> PromptOptions.systemPrompt = None, includeOtherTopics = None, includeFacts = None,
       factsFromAllBranches = None, template = None \<rparr>"

fun normalize_options :: "PromptArg \<Rightarrow> PromptOptions" where
  "normalize_options (LegacyString s) = no_options\<lparr> PromptOptions.systemPrompt := Some s \<rparr>"
| "normalize_options (Options opts) = opts"
| "normalize_options Omitted = no_options"

text \<open>Lines 135 to 141: a default applies where the field is \<open>undefined\<close>.\<close>

definition or_default :: "'a option \<Rightarrow> 'a \<Rightarrow> 'a" where
  "or_default v d = (case v of None \<Rightarrow> d | Some x \<Rightarrow> x)"

definition flatMap :: "('a \<Rightarrow> 'b list) \<Rightarrow> 'a list \<Rightarrow> 'b list" where
  "flatMap f xs = concat (map f xs)"

text \<open>Lines 144 to 148.\<close>

definition factsToInclude :: "bool \<Rightarrow> bool \<Rightarrow> ('m, 'f) Context \<Rightarrow> Fact list" where
  "factsToInclude incl fromAll ctx =
     (if incl
      then flatMap (\<lambda>b. map (\<lambda>f. \<lparr> key = key f, value = value f \<rparr>) (BranchFactSet.facts b))
             (filter (\<lambda>b. fromAll \<or> isCurrent b) (allFacts ctx))
      else [])"

text \<open>Lines 150 to 152.\<close>

definition otherTopics_of :: "bool \<Rightarrow> ('m, 'f) Context \<Rightarrow> string list" where
  "otherTopics_of incl ctx =
     (if incl
      then map BranchFactSet.branchTopic (filter (\<lambda>b. \<not> isCurrent b) (allFacts ctx))
      else [])"

text \<open>Lines 164 to 166.\<close>

definition factsBlock :: "Fact list \<Rightarrow> string" where
  "factsBlock fs = join ''\<newline>'' (map (\<lambda>f. ''- '' @ key f @ '': '' @ value f) fs)"

text \<open>Lines 168 to 177: the array \<open>parts\<close> after the pushes.\<close>

definition parts :: "string \<Rightarrow> string \<Rightarrow> bool \<Rightarrow> Fact list \<Rightarrow> bool \<Rightarrow> string list \<Rightarrow> string list" where
  "parts sp topic inclFacts fs inclOther others =
     [sp] @
     [''\<newline>Current topic: '' @ topic] @
     (if inclFacts \<and> factsBlock fs \<noteq> []
      then [''\<newline>Known facts:\<newline>'' @ factsBlock fs] else []) @
     (if inclOther \<and> length others > 0
      then [''\<newline>Other topics discussed: '' @ join '', '' others] else [])"

text \<open>Lines 130 to 187: \<open>buildPrompt\<close> after the context has been fetched. The
  template is a function of its argument only.\<close>

definition assemble :: "('m, 'f) Context \<Rightarrow> PromptArg \<Rightarrow> Prompt" where
  "assemble ctx arg =
     (let opts = normalize_options arg;
          sp = or_default (PromptOptions.systemPrompt opts) ''You are a helpful assistant.'';
          inclOther = or_default (includeOtherTopics opts) True;
          inclFacts = or_default (includeFacts opts) True;
          fromAll = or_default (factsFromAllBranches opts) False;
          fs = factsToInclude inclFacts fromAll ctx;
          others = otherTopics_of inclOther ctx;
          sys = (case template opts of
                   Some t \<Rightarrow>
                     t \<lparr> TemplateContext.systemPrompt = sp,
                         TemplateContext.branchTopic = Context.branchTopic ctx,
                         TemplateContext.facts = fs,
                         TemplateContext.otherTopics = others \<rparr>
                 | None \<Rightarrow>
                     trim (join [] (parts sp (Context.branchTopic ctx) inclFacts fs inclOther others)))
      in \<lparr> system = sys,
           messages = map (\<lambda>m. \<lparr> role = role m, content = content m \<rparr>) (Context.messages ctx) \<rparr>)"

text \<open>The method \<open>buildPrompt\<close>, lines 113 to 188. A response without \<open>data\<close> leaves
  \<open>ctx\<close> undefined, and reading \<open>ctx.branchTopic\<close> then raises.\<close>

definition buildPrompt ::
  "State \<Rightarrow> (FetchCall \<Rightarrow> ('m, 'f) Context NetOutcome) \<Rightarrow> string \<Rightarrow> PromptArg
     \<Rightarrow> (error + Prompt) \<times> State" where
  "buildPrompt s net branch arg =
     (case getContext s net branch of
        (Inl e, s') \<Rightarrow> (Inl e, s')
      | (Inr None, s') \<Rightarrow> (Inl TypeError, s')
      | (Inr (Some ctx), s') \<Rightarrow> (Inr (assemble ctx arg), s'))"

section \<open>Prompt assembly on an unchecked payload\<close>











section \<open>The specification's wording of prompt assembly\<close>

text \<open>
  The selection of facts as the specification words it: the branches are visited in
  their order, a branch contributes its facts in their order when all branches are
  wanted or the branch is the current one, and only key and value are kept.
\<close>

fun spec_select_facts :: "bool \<Rightarrow> 'f BranchFactSet list \<Rightarrow> Fact list" where
  "spec_select_facts fromAll [] = []"
| "spec_select_facts fromAll (b # bs) =
     (if fromAll \<or> isCurrent b
      then map (\<lambda>f. \<lparr> key = key f, value = value f \<rparr>) (BranchFactSet.facts b)
      else []) @ spec_select_facts fromAll bs"

text \<open>The other topics as the specification words them: the topic of every branch
  that is not current, in the original order, duplicates kept.\<close>

fun spec_other_topics :: "'f BranchFactSet list \<Rightarrow> string list" where
  "spec_other_topics [] = []"
| "spec_other_topics (b # bs) =
     (if isCurrent b then [] else [BranchFactSet.branchTopic b]) @ spec_other_topics bs"

text \<open>The messages as the specification words them: those of the context, projected
  to role and content, in order, none dropped.\<close>

definition spec_messages :: "('m, 'f) Context \<Rightarrow> Message list" where
  "spec_messages ctx = map (\<lambda>m. \<lparr> role = role m, content = content m \<rparr>) (Context.messages ctx)"

text \<open>The default template as the specification words it: one concatenation, a
  section being present iff its flag is set and its list is not empty, trimmed.\<close>

definition spec_facts_section :: "bool \<Rightarrow> Fact list \<Rightarrow> string" where
  "spec_facts_section inclFacts fs =
     (if inclFacts \<and> fs \<noteq> []
      then ''\<newline>Known facts:\<newline>'' @
           join ''\<newline>'' (map (\<lambda>f. ''- '' @ key f @ '': '' @ value f) fs)
      else [])"

definition spec_topics_section :: "bool \<Rightarrow> string list \<Rightarrow> string" where
  "spec_topics_section inclOther others =
     (if inclOther \<and> others \<noteq> []
      then ''\<newline>Other topics discussed: '' @ join '', '' others
      else [])"

definition spec_default_system ::
  "string \<Rightarrow> string \<Rightarrow> bool \<Rightarrow> Fact list \<Rightarrow> bool \<Rightarrow> string list \<Rightarrow> string" where
  "spec_default_system sp topic inclFacts fs inclOther others =
     trim (sp @ ''\<newline>Current topic: '' @ topic @
           spec_facts_section inclFacts fs @ spec_topics_section inclOther others)"

text \<open>Steps 1 to 5 of the specification's contract chained on normalized options:
  the effective option values, the fact list of step 2, the topics of step 3, and
  the default system string of step 5.\<close>

definition spec_systemPrompt :: "PromptOptions \<Rightarrow> string" where
  "spec_systemPrompt opts =
     (case PromptOptions.systemPrompt opts of
        None \<Rightarrow> ''You are a helpful assistant.'' | Some p \<Rightarrow> p)"

definition spec_includeFacts :: "PromptOptions \<Rightarrow> bool" where
  "spec_includeFacts opts = (case includeFacts opts of None \<Rightarrow> True | Some v \<Rightarrow> v)"

definition spec_includeOtherTopics :: "PromptOptions \<Rightarrow> bool" where
  "spec_includeOtherTopics opts =
     (case includeOtherTopics opts of None \<Rightarrow> True | Some v \<Rightarrow> v)"

definition spec_factsFromAllBranches :: "PromptOptions \<Rightarrow> bool" where
  "spec_factsFromAllBranches opts =
     (case factsFromAllBranches opts of None \<Rightarrow> False | Some v \<Rightarrow> v)"

definition spec_facts :: "('m, 'f) Context \<Rightarrow> PromptOptions \<Rightarrow> Fact list" where
  "spec_facts ctx opts =
     (if spec_includeFacts opts
      then spec_select_facts (spec_factsFromAllBranches opts) (allFacts ctx)
      else [])"

definition spec_topics :: "('m, 'f) Context \<Rightarrow> PromptOptions \<Rightarrow> string list" where
  "spec_topics ctx opts =
     (if spec_includeOtherTopics opts then spec_other_topics (allFacts ctx) else [])"

definition spec_system :: "('m, 'f) Context \<Rightarrow> PromptOptions \<Rightarrow> string" where
  "spec_system ctx opts =
     spec_default_system (spec_systemPrompt opts) (Context.branchTopic ctx)
       (spec_includeFacts opts) (spec_facts ctx opts)
       (spec_includeOtherTopics opts) (spec_topics ctx opts)"

text \<open>A string has a character that \<open>trim\<close> does not remove.\<close>

definition visible :: "string \<Rightarrow> bool" where
  "visible s = (\<exists>c \<in> set s. \<not> is_js_whitespace c)"

text \<open>The example of the specification's section 8.\<close>

definition example_context :: "(unit, unit) Context" where
  "example_context =
     \<lparr> Context.branchTopic = ''Paris trip planning'',
       Context.messages =
         [\<lparr> role = ''user'', content = ''I want to plan a trip to Paris'' \<rparr>],
       allFacts =
         [\<lparr> branchId = ''b1'', BranchFactSet.branchTopic = ''Paris trip planning'',
            isCurrent = True,
            BranchFactSet.facts = [\<lparr> key = ''destination'', value = ''Paris'' \<rparr>] \<rparr>,
          \<lparr> branchId = ''b2'', BranchFactSet.branchTopic = ''Budget tracking'',
            isCurrent = False, BranchFactSet.facts = [] \<rparr>] \<rparr>"

text \<open>The configuration of the README's hosted example, with the \<open>hosted\<close> flag as
  a parameter, and a self-hosted one.\<close>

definition hosted_config :: "bool option \<Rightarrow> DriftConfig" where
  "hosted_config h =
     \<lparr> DriftConfig.baseUrl = ''https://api.driftos.dev'',
       DriftConfig.apiKey = Some ''your-api-key'',
       DriftConfig.timeout = None,
       hosted = h \<rparr>"

definition local_config :: "string \<Rightarrow> string option \<Rightarrow> DriftConfig" where
  "local_config u k =
     \<lparr> DriftConfig.baseUrl = u, DriftConfig.apiKey = k,
       DriftConfig.timeout = None, hosted = None \<rparr>"

text \<open>A template that pads the topic with blanks, and one that lists all that it
  is given.\<close>

definition padded_topic_template :: "TemplateContext \<Rightarrow> string" where
  "padded_topic_template t = '' topic: '' @ TemplateContext.branchTopic t @ '' ''"


definition listing_template :: "TemplateContext \<Rightarrow> string" where
  "listing_template t =
     TemplateContext.systemPrompt t @ ''|'' @ TemplateContext.branchTopic t @ ''|'' @
     concat (map (\<lambda>f. key f @ ''='' @ value f @ '';'') (TemplateContext.facts t)) @ ''|'' @
     join '','' (TemplateContext.otherTopics t)"

text \<open>A context whose topic is empty; a context with two branches, the current one
  second; a network that answers every call with a given context; a payload without
  \<open>allFacts\<close>; and a payload in which no branch is current.\<close>

definition untitled_context :: "(unit, unit) Context" where
  "untitled_context =
     \<lparr> Context.branchTopic = [],
       Context.messages = [],
       allFacts =
         [\<lparr> branchId = ''b1'', BranchFactSet.branchTopic = [], isCurrent = True,
            BranchFactSet.facts = [] \<rparr>] \<rparr>"

definition two_branch_context :: "(unit, unit) Context" where
  "two_branch_context =
     \<lparr> Context.branchTopic = ''Paris trip planning'',
       Context.messages =
         [\<lparr> role = ''user'', content = ''I want to plan a trip to Paris'' \<rparr>,
          \<lparr> role = ''assistant'', content = ''When do you travel?'' \<rparr>],
       allFacts =
         [\<lparr> branchId = ''b2'', BranchFactSet.branchTopic = ''Budget tracking'',
            isCurrent = False,
            BranchFactSet.facts = [\<lparr> key = ''budget'', value = ''2000'' \<rparr>] \<rparr>,
          \<lparr> branchId = ''b1'', BranchFactSet.branchTopic = ''Paris trip planning'',
            isCurrent = True,
            BranchFactSet.facts = [\<lparr> key = ''destination'', value = ''Paris'' \<rparr>,
                                   \<lparr> key = ''month'', value = ''May'' \<rparr>] \<rparr>] \<rparr>"

definition context_net ::
  "('m, 'f) Context \<Rightarrow> FetchCall \<Rightarrow> ('m, 'f) Context NetOutcome" where
  "context_net ctx call =
     Responded 200 (Parsed \<lparr> success = True, data = Some ctx, error = None \<rparr>)"



text \<open>
  The specification's wording of the timeout: the time after which the network has
  delivered a complete response or a failure, if it ever does, and whether the call
  is still pending \<open>T\<close> milliseconds after it was made.
\<close>

fun completes :: "'a BodyOutcome \<Rightarrow> bool" where
  "completes BodyStalled = False"
| "completes (Parsed env) = True"
| "completes Malformed = True"
| "completes JsonNull = True"

fun arrival :: "'a NetOutcome \<Rightarrow> nat option" where
  "arrival (Responded status b) = (if completes b then Some 0 else None)"
| "arrival NetworkFailure = Some 0"
| "arrival NoResponse = None"
| "arrival (RespondedAfter ms status b) = (if completes b then Some ms else None)"
| "arrival (NetworkFailureAfter ms) = Some ms"

definition pending_after :: "int \<Rightarrow> 'a NetOutcome \<Rightarrow> bool" where
  "pending_after T outcome = (case arrival outcome of None \<Rightarrow> True | Some a \<Rightarrow> T < int a)"

text \<open>The same outcome without the time it takes.\<close>

fun at_once :: "'a NetOutcome \<Rightarrow> 'a NetOutcome" where
  "at_once (RespondedAfter ms status b) = Responded status b"
| "at_once (NetworkFailureAfter ms) = NetworkFailure"
| "at_once (Responded status b) = Responded status b"
| "at_once NetworkFailure = NetworkFailure"
| "at_once NoResponse = NoResponse"

text \<open>
  How the platform can change while a call is pending: nothing is sent and no
  handle is drawn, the clock does not go back, no timer is added, a timer that is
  not yet due stays, and no abort is undone.
\<close>

definition passes :: "World \<Rightarrow> World \<Rightarrow> bool" where
  "passes w w' =
     (fetched w' = fetched w \<and> nextHandle w' = nextHandle w \<and> now w \<le> now w' \<and>
      set (armed w') \<subseteq> set (armed w) \<and>
      (\<forall>tm \<in> set (armed w). now w' < due tm \<longrightarrow> tm \<in> set (armed w')) \<and>
      set (aborted w) \<subseteq> set (aborted w'))"

text \<open>The call that \<open>request\<close> hands to \<open>fetch\<close>, and the platform after lines 26,
  27 and 40: the controller has the first fresh handle, the timer the second.\<close>

definition request_call :: "State \<Rightarrow> string \<Rightarrow> string \<Rightarrow> jsval \<Rightarrow> FetchCall" where
  "request_call s meth path b = fetch_call (this s) meth path b (nextHandle (world s))"

definition sent_world :: "State \<Rightarrow> FetchCall \<Rightarrow> World" where
  "sent_world s call =
     (world s)\<lparr> nextHandle := Suc (Suc (nextHandle (world s))),
                armed := \<lparr> handle = Suc (nextHandle (world s)),
                           due = now (world s) + effective_delay (timeout (this s)),
                           aborts = nextHandle (world s) \<rparr> # armed (world s),
                fetched := fetched (world s) @ [call] \<rparr>"

section \<open>Transport: auxiliary facts\<close>

lemma request_unfold:
  "request s net meth path b =
     (let call = request_call s meth path b;
          r = settle call (net call) (sent_world s call)
      in if fst r = Inl NeverSettles then (fst r, s\<lparr> world := snd r \<rparr>)
         else (fst r, s\<lparr> world := clearTimeout (Suc (nextHandle (world s))) (snd r) \<rparr>))"
  by (simp add: request_def new_AbortController_def setTimeout_def sent_world_def
      request_call_def Let_def case_prod_beta)

lemma passes_refl: "passes w w"
  by (simp add: passes_def)

lemma passes_trans:
  assumes "passes w w'" and "passes w' w''"
  shows "passes w w''"
proof -
  have keep: "tm \<in> set (armed w'')" if "tm \<in> set (armed w)" and "now w'' < due tm" for tm
  proof -
    have "now w' \<le> now w''" using assms(2) by (simp add: passes_def)
    with that(2) have "now w' < due tm" by simp
    with that(1) assms(1) have "tm \<in> set (armed w')" by (simp add: passes_def)
    with that(2) assms(2) show ?thesis by (simp add: passes_def)
  qed
  have "fetched w'' = fetched w" "nextHandle w'' = nextHandle w" "now w \<le> now w''"
      "set (armed w'') \<subseteq> set (armed w)" "set (aborted w) \<subseteq> set (aborted w'')"
    using assms by (simp_all add: passes_def, blast+)
  with keep show ?thesis by (simp add: passes_def)
qed

lemma passes_advance: "passes w (advance t w)"
  by (auto simp add: passes_def advance_def)

lemma abort_by_passes: "abort_by limit call w = Some w' \<Longrightarrow> passes w w'"
  by (auto simp add: abort_by_def passes_refl passes_advance
      split: option.splits if_splits)

lemma find_Some_holds: "find P xs = Some x \<Longrightarrow> P x \<and> x \<in> set xs"
  by (induction xs) (auto split: if_splits)

lemma abort_by_aborted:
  "abort_by limit call w = Some w' \<Longrightarrow> signal call = Some c \<Longrightarrow> c \<in> set (aborted w')"
  by (auto simp add: abort_by_def advance_def split: option.splits if_splits
      dest!: find_Some_holds)

lemma abort_by_finds:
  assumes "signal call = Some c" and "tm \<in> set (armed w)" and "aborts tm = c"
    and "case limit of None \<Rightarrow> True | Some t \<Rightarrow> due tm \<le> t"
  shows "\<exists>w'. abort_by limit call w = Some w'"
proof (cases "c \<in> set (aborted w)")
  case True
  with assms(1) show ?thesis by (simp add: abort_by_def)
next
  case False
  have "find (\<lambda>tm. aborts tm = c \<and> (case limit of None \<Rightarrow> True | Some t \<Rightarrow> due tm \<le> t))
          (armed w) \<noteq> None"
    using assms(2-4) by (auto simp add: find_None_iff)
  with False assms(1) show ?thesis by (auto simp add: abort_by_def)
qed

lemma abort_by_misses:
  assumes "signal call = Some c" and "c \<notin> set (aborted w)"
    and "\<forall>tm \<in> set (armed w). aborts tm = c \<longrightarrow> t < due tm"
  shows "abort_by (Some t) call w = None"
proof -
  have "find (\<lambda>tm. aborts tm = c \<and> due tm \<le> t) (armed w) = None"
    using assms(3) by (auto simp add: find_None_iff)
  with assms(1,2) show ?thesis by (simp add: abort_by_def)
qed

lemma unanswered_passes: "passes w (snd (unanswered call w))"
  by (auto simp add: unanswered_def passes_refl abort_by_passes split: option.splits)

lemma answered_passes: "passes w (snd (answered call status b w))"
  by (cases b) (simp_all add: answered_def passes_refl unanswered_passes)

lemma settle_passes: "passes w (snd (settle call outcome w))"
proof (cases outcome)
  case (RespondedAfter ms status b)
  show ?thesis
  proof (cases "abort_by (Some (now w + int ms)) call w")
    case None
    have "passes w (advance (now w + int ms) w)" by (rule passes_advance)
    moreover have "passes (advance (now w + int ms) w)
        (snd (answered call status b (advance (now w + int ms) w)))"
      by (rule answered_passes)
    ultimately show ?thesis
      using None RespondedAfter by (simp add: settle_def) (rule passes_trans)
  next
    case (Some w')
    then show ?thesis
      using RespondedAfter by (simp add: settle_def abort_by_passes)
  qed
next
  case (NetworkFailureAfter ms)
  then show ?thesis
    by (auto simp add: settle_def passes_advance abort_by_passes split: option.splits)
qed (simp_all add: settle_def passes_refl unanswered_passes answered_passes)

lemma request_call_signal: "signal (request_call s meth path b) = Some (nextHandle (world s))"
  by (simp add: request_call_def fetch_call_def)

lemma unanswered_armed:
  assumes "signal call = Some c" and "tm \<in> set (armed w)" and "aborts tm = c"
  shows "fst (unanswered call w) = Inl TimeoutError"
    and "c \<in> set (aborted (snd (unanswered call w)))"
proof -
  obtain w' where w': "abort_by None call w = Some w'"
    using abort_by_finds [OF assms(1,2,3), of None] by auto
  show "fst (unanswered call w) = Inl TimeoutError"
    by (simp add: unanswered_def w')
  show "c \<in> set (aborted (snd (unanswered call w)))"
    using abort_by_aborted [OF w' assms(1)] by (simp add: unanswered_def w')
qed

lemma own_timer_sent:
  "\<lparr> handle = Suc (nextHandle (world s)),
     due = now (world s) + effective_delay (timeout (this s)),
     aborts = nextHandle (world s) \<rparr> \<in> set (armed (sent_world s call))"
  "now (sent_world s call) = now (world s)"
  "fetched (sent_world s call) = fetched (world s) @ [call]"
  "aborted (sent_world s call) = aborted (world s)"
  by (simp_all add: sent_world_def)

lemma answered_never_pending:
  assumes "signal call = Some c" and "tm \<in> set (armed w)" and "aborts tm = c"
  shows "fst (answered call status b w) \<noteq> Inl NeverSettles"
  by (cases b) (simp_all add: answered_def unanswered_armed(1) [OF assms])

lemma settle_sent_returns:
  "fst (settle (request_call s meth path b) outcome (sent_world s call)) \<noteq> Inl NeverSettles"
proof -
  let ?call = "request_call s meth path b"
  let ?own = "\<lparr> handle = Suc (nextHandle (world s)),
     due = now (world s) + effective_delay (timeout (this s)),
     aborts = nextHandle (world s) \<rparr>"
  have sig: "signal ?call = Some (nextHandle (world s))" by (rule request_call_signal)
  have own: "?own \<in> set (armed (sent_world s call))" by (rule own_timer_sent)
  have ab: "aborts ?own = nextHandle (world s)" by simp
  show ?thesis
  proof (cases outcome)
    case (Responded status body)
    then show ?thesis
      by (simp add: settle_def answered_never_pending [OF sig own ab])
  next
    case NetworkFailure
    then show ?thesis by (simp add: settle_def)
  next
    case NoResponse
    then show ?thesis
      by (simp add: settle_def unanswered_armed(1) [OF sig own ab])
  next
    case (RespondedAfter ms status body)
    show ?thesis
    proof (cases "abort_by (Some (now (sent_world s call) + int ms)) ?call (sent_world s call)")
      case (Some w')
      with RespondedAfter show ?thesis by (simp add: settle_def)
    next
      case None
      have "\<not> due ?own \<le> now (sent_world s call) + int ms"
        using abort_by_finds [OF sig own ab, of "Some (now (sent_world s call) + int ms)"] None
        by auto
      then have "?own \<in> set (armed (advance (now (sent_world s call) + int ms) (sent_world s call)))"
        using own by (simp add: advance_def)
      then show ?thesis
        using None RespondedAfter
        by (simp add: settle_def answered_never_pending [OF sig _ ab])
    qed
  next
    case (NetworkFailureAfter ms)
    then show ?thesis by (simp add: settle_def split: option.splits)
  qed
qed

lemma request_unfold':
  "request s net meth path b =
     (let call = request_call s meth path b;
          r = settle call (net call) (sent_world s call)
      in (fst r, s\<lparr> world := clearTimeout (Suc (nextHandle (world s))) (snd r) \<rparr>))"
  by (simp add: request_unfold Let_def settle_sent_returns)

lemma request_this: "this (snd (request s net meth path b)) = this s"
  by (simp add: request_unfold' Let_def)

lemma request_fetched:
  "fetched (world (snd (request s net meth path b))) =
     fetched (world s) @ [request_call s meth path b]"
  using settle_passes [of "sent_world s (request_call s meth path b)"
      "request_call s meth path b" "net (request_call s meth path b)"]
  by (simp add: request_unfold' Let_def clearTimeout_def passes_def own_timer_sent)

lemma request_result:
  "fst (request s net meth path b) =
     fst (settle (request_call s meth path b) (net (request_call s meth path b))
            (sent_world s (request_call s meth path b)))"
  by (simp add: request_unfold' Let_def)

lemma request_aborted:
  "aborted (world (snd (request s net meth path b))) =
     aborted (snd (settle (request_call s meth path b) (net (request_call s meth path b))
            (sent_world s (request_call s meth path b))))"
  by (simp add: request_unfold' Let_def clearTimeout_def)

lemma request_armed:
  "armed (world (snd (request s net meth path b))) =
     filter (\<lambda>tm. handle tm \<noteq> Suc (nextHandle (world s)))
       (armed (snd (settle (request_call s meth path b) (net (request_call s meth path b))
            (sent_world s (request_call s meth path b)))))"
  by (simp add: request_unfold' Let_def clearTimeout_def)

lemma request_now:
  "now (world (snd (request s net meth path b))) =
     now (snd (settle (request_call s meth path b) (net (request_call s meth path b))
            (sent_world s (request_call s meth path b))))"
  by (simp add: request_unfold' Let_def clearTimeout_def)

lemma pending_after_mono: "T' \<le> T \<Longrightarrow> pending_after T outcome \<Longrightarrow> pending_after T' outcome"
  by (auto simp add: pending_after_def split: option.splits)

lemma effective_delay_le: "0 < T \<Longrightarrow> effective_delay T \<le> T"
  by (simp add: effective_delay_def)

lemma settle_sent_timeout:
  assumes "pending_after (effective_delay (timeout (this s))) outcome"
  shows "fst (settle (request_call s meth path b) outcome (sent_world s call)) = Inl TimeoutError"
    and "nextHandle (world s)
           \<in> set (aborted (snd (settle (request_call s meth path b) outcome (sent_world s call))))"
proof -
  let ?call = "request_call s meth path b"
  let ?w = "sent_world s call"
  let ?own = "\<lparr> handle = Suc (nextHandle (world s)),
     due = now (world s) + effective_delay (timeout (this s)),
     aborts = nextHandle (world s) \<rparr>"
  let ?res = "settle ?call outcome ?w :: (error + 'a option) \<times> World"
  have pos: "0 < effective_delay (timeout (this s))" by (simp add: effective_delay_def)
  have sig: "signal ?call = Some (nextHandle (world s))" by (rule request_call_signal)
  have own: "?own \<in> set (armed ?w)" by (rule own_timer_sent)
  have ab: "aborts ?own = nextHandle (world s)" by simp
  have stalled: "fst (answered ?call status BodyStalled w' :: (error + 'a option) \<times> World) = Inl TimeoutError
      \<and> nextHandle (world s) \<in> set (aborted (snd (answered ?call status BodyStalled w' :: (error + 'a option) \<times> World)))"
    if "?own \<in> set (armed w')" for status w'
    using unanswered_armed [OF sig that ab] by (simp add: answered_def)
  have late: "\<exists>w'. abort_by (Some (now ?w + int ms)) ?call ?w = Some w'"
    if "effective_delay (timeout (this s)) < int ms" for ms
  proof -
    have "due ?own \<le> now ?w + int ms"
      using that by (simp add: own_timer_sent)
    then show ?thesis
      using abort_by_finds [OF sig own ab, of "Some (now ?w + int ms)"] by simp
  qed
  have "fst ?res = Inl TimeoutError
      \<and> nextHandle (world s) \<in> set (aborted (snd ?res))"
  proof (cases outcome)
    case (Responded status body)
    with assms pos have "body = BodyStalled"
      by (cases body) (simp_all add: pending_after_def)
    with Responded show ?thesis using stalled [OF own] by (simp add: settle_def)
  next
    case NetworkFailure
    with assms pos show ?thesis by (simp add: pending_after_def)
  next
    case NoResponse
    then show ?thesis using unanswered_armed [OF sig own ab] by (simp add: settle_def)
  next
    case (RespondedAfter ms status body)
    show ?thesis
    proof (cases "abort_by (Some (now ?w + int ms)) ?call ?w")
      case (Some w')
      then show ?thesis
        using RespondedAfter abort_by_aborted [OF Some sig] by (simp add: settle_def)
    next
      case None
      have "\<not> effective_delay (timeout (this s)) < int ms"
      proof
        assume "effective_delay (timeout (this s)) < int ms"
        from late [OF this] None show False by simp
      qed
      with assms RespondedAfter have body: "body = BodyStalled"
        by (cases body) (simp_all add: pending_after_def)
      have "\<not> due ?own \<le> now ?w + int ms"
        using abort_by_finds [OF sig own ab, of "Some (now ?w + int ms)"] None by auto
      then have "?own \<in> set (armed (advance (now ?w + int ms) ?w))"
        using own by (simp add: advance_def)
      from stalled [OF this] show ?thesis
        using None RespondedAfter body by (simp add: settle_def)
    qed
  next
    case (NetworkFailureAfter ms)
    with assms have "effective_delay (timeout (this s)) < int ms"
      by (simp add: pending_after_def)
    from late [OF this] obtain w' where w': "abort_by (Some (now ?w + int ms)) ?call ?w = Some w'"
      by auto
    then show ?thesis
      using NetworkFailureAfter abort_by_aborted [OF w' sig] by (simp add: settle_def)
  qed
  then show "fst ?res = Inl TimeoutError"
    and "nextHandle (world s) \<in> set (aborted (snd ?res))" by blast+
qed

lemma answered_completes:
  "completes b \<Longrightarrow> answered call status b w = (fst (answered call status b w'), w)"
  by (cases b) (simp_all add: answered_def)

lemma answered_completes_no_timeout:
  "completes b \<Longrightarrow> fst (answered call status b w) \<noteq> Inl TimeoutError"
  by (cases b) (simp_all add: answered_def)

lemma settle_sent_in_time:
  assumes fresh: "nextHandle (world s) \<notin> set (aborted (world s))"
      "\<forall>tm \<in> set (armed (world s)). aborts tm \<noteq> nextHandle (world s)"
    and T: "0 < timeout (this s)" "timeout (this s) \<le> 2147483647"
    and arr: "arrival outcome = Some a" "int a < timeout (this s)"
  shows "fst (settle (request_call s meth path b) outcome (sent_world s call))
           = fst (settle (request_call s meth path b) (at_once outcome) (sent_world s call))"
    and "fst (settle (request_call s meth path b) outcome (sent_world s call)) \<noteq> Inl TimeoutError"
    and "nextHandle (world s)
           \<notin> set (aborted (snd (settle (request_call s meth path b) outcome (sent_world s call))))"
proof -
  let ?call = "request_call s meth path b"
  let ?w = "sent_world s call"
  let ?res = "settle ?call outcome ?w :: (error + 'a option) \<times> World"
  have sig: "signal ?call = Some (nextHandle (world s))" by (rule request_call_signal)
  have eff: "effective_delay (timeout (this s)) = timeout (this s)"
    using T by (simp add: effective_delay_def)
  have miss: "abort_by (Some (now ?w + int ms)) ?call ?w = None" if "int ms < timeout (this s)" for ms
  proof (rule abort_by_misses [OF sig])
    show "nextHandle (world s) \<notin> set (aborted ?w)" using fresh(1) by (simp add: own_timer_sent)
    show "\<forall>tm\<in>set (armed ?w). aborts tm = nextHandle (world s) \<longrightarrow> now ?w + int ms < due tm"
      using fresh(2) that by (auto simp add: sent_world_def eff)
  qed
  have quiet: "nextHandle (world s) \<notin> set (aborted (advance (now ?w + int ms) ?w))"
    if "int ms < timeout (this s)" for ms
    using fresh that by (auto simp add: advance_def sent_world_def eff)
  have "fst ?res = fst (settle ?call (at_once outcome) ?w :: (error + 'a option) \<times> World)
      \<and> fst ?res \<noteq> Inl TimeoutError
      \<and> nextHandle (world s) \<notin> set (aborted (snd ?res))"
  proof (cases outcome)
    case (Responded status body)
    with arr have c: "completes body" by (simp split: if_splits)
    from answered_completes [OF c, of ?call status ?w ?w]
    have "snd (answered ?call status body ?w :: (error + 'a option) \<times> World) = ?w"
      by (metis snd_conv)
    with Responded show ?thesis
      using fresh(1) answered_completes_no_timeout [OF c]
      by (simp add: settle_def own_timer_sent)
  next
    case NetworkFailure
    then show ?thesis using fresh(1) by (simp add: settle_def own_timer_sent)
  next
    case NoResponse
    with arr show ?thesis by simp
  next
    case (RespondedAfter ms status body)
    with arr have c: "completes body" and ms: "int ms < timeout (this s)"
      by (simp_all split: if_splits)
    have eq: "answered ?call status body (advance (now ?w + int ms) ?w)
        = (fst (answered ?call status body ?w :: (error + 'a option) \<times> World),
           advance (now ?w + int ms) ?w)"
      by (rule answered_completes [OF c])
    show ?thesis
      using RespondedAfter miss [OF ms] quiet [OF ms] answered_completes_no_timeout [OF c]
      by (simp add: settle_def eq)
  next
    case (NetworkFailureAfter ms)
    with arr have ms: "int ms < timeout (this s)" by simp
    show ?thesis
      using NetworkFailureAfter miss [OF ms] quiet [OF ms] by (simp add: settle_def)
  qed
  then show "fst ?res = fst (settle ?call (at_once outcome) ?w :: (error + 'a option) \<times> World)"
    and "fst ?res \<noteq> Inl TimeoutError"
    and "nextHandle (world s) \<notin> set (aborted (snd ?res))" by blast+
qed

lemma buildPrompt_snd: "snd (buildPrompt s net branch arg) = snd (getContext s net branch)"
  by (simp add: buildPrompt_def split: prod.splits sum.splits option.splits)

lemma buildPrompt_fst:
  "fst (buildPrompt s net branch arg) =
     (case fst (getContext s net branch) of
        Inl e \<Rightarrow> Inl e
      | Inr None \<Rightarrow> Inl TypeError
      | Inr (Some ctx) \<Rightarrow> Inr (assemble ctx arg))"
  by (simp add: buildPrompt_def split: prod.splits sum.splits option.splits)

lemma hosted_client:
  "this (fresh_state (hosted_config h)) =
     \<lparr> baseUrl = ''https://api.driftos.dev'', apiKey = Some ''your-api-key'', timeout = 10000 \<rparr>"
  by (simp add: fresh_state_def hosted_config_def new_DriftClient_def strip_trailing_slash_def)

lemma fresh_world: "world (fresh_state config) = idle_world"
  by (simp add: fresh_state_def)

lemma settle_parsed:
  "fst (settle call (Responded status (Parsed env)) w) =
     (if response_ok status \<and> success env then Inr (data env)
      else Inl (RequestError (error_message env status)))"
  by (simp add: settle_def answered_def)

lemma strip_trailing_slash_snoc: "strip_trailing_slash (u @ ''/'') = u"
  by (simp add: strip_trailing_slash_def)

lemma strip_trailing_slash_id:
  "u = [] \<or> last u \<noteq> CHR ''/'' \<Longrightarrow> strip_trailing_slash u = u"
  by (auto simp add: strip_trailing_slash_def)

section \<open>Prompt assembly: auxiliary facts\<close>

lemma join_Nil_concat: "join [] xs = concat xs"
  by (induction "[] :: string" xs rule: join.induct) simp_all

lemma join_Cons_not_Nil: "x \<noteq> [] \<Longrightarrow> join sep (x # xs) \<noteq> []"
  by (cases xs) simp_all

lemma factsBlock_Nil_iff: "factsBlock fs = [] \<longleftrightarrow> fs = []"
proof (cases fs)
  case Nil
  then show ?thesis by (simp add: factsBlock_def)
next
  case (Cons f fs')
  have "join ''\<newline>'' ((''- '' @ key f @ '': '' @ value f) # map (\<lambda>f. ''- '' @ key f @ '': '' @ value f) fs') \<noteq> []"
    by (rule join_Cons_not_Nil) simp
  with Cons show ?thesis by (simp add: factsBlock_def)
qed

lemma flatMap_filter_select:
  "flatMap (\<lambda>b. map (\<lambda>f. \<lparr> key = key f, value = value f \<rparr>) (BranchFactSet.facts b))
     (filter (\<lambda>b. fromAll \<or> isCurrent b) bs) = spec_select_facts fromAll bs"
  by (cases fromAll; induction bs) (simp_all add: flatMap_def)

lemma factsToInclude_spec:
  "factsToInclude incl fromAll ctx =
     (if incl then spec_select_facts fromAll (allFacts ctx) else [])"
  by (simp add: factsToInclude_def flatMap_filter_select)

lemma filter_map_other_topics:
  "map BranchFactSet.branchTopic (filter (\<lambda>b. \<not> isCurrent b) bs) = spec_other_topics bs"
  by (induction bs) simp_all

lemma otherTopics_of_spec:
  "otherTopics_of incl ctx = (if incl then spec_other_topics (allFacts ctx) else [])"
  by (simp add: otherTopics_of_def filter_map_other_topics)

lemma or_default_flags:
  "or_default (includeFacts opts) True = spec_includeFacts opts"
  "or_default (includeOtherTopics opts) True = spec_includeOtherTopics opts"
  "or_default (factsFromAllBranches opts) False = spec_factsFromAllBranches opts"
  "or_default (PromptOptions.systemPrompt opts) ''You are a helpful assistant.'' = spec_systemPrompt opts"
  by (auto simp add: or_default_def spec_includeFacts_def spec_includeOtherTopics_def
      spec_factsFromAllBranches_def spec_systemPrompt_def split: option.splits)

lemma parts_concat:
  "join [] (parts sp topic inclFacts fs inclOther others) =
     sp @ ''\<newline>Current topic: '' @ topic @
     spec_facts_section inclFacts fs @ spec_topics_section inclOther others"
proof -
  have "spec_facts_section inclFacts fs =
          (if inclFacts \<and> factsBlock fs \<noteq> []
           then ''\<newline>Known facts:\<newline>'' @ factsBlock fs else [])"
    by (simp add: spec_facts_section_def factsBlock_Nil_iff) (simp add: factsBlock_def)
  then show ?thesis
    by (simp add: join_Nil_concat parts_def spec_topics_section_def)
qed

lemma assemble_system:
  "system (assemble ctx arg) =
     (case template (normalize_options arg) of
        Some t \<Rightarrow>
          t \<lparr> TemplateContext.systemPrompt = spec_systemPrompt (normalize_options arg),
              TemplateContext.branchTopic = Context.branchTopic ctx,
              TemplateContext.facts = spec_facts ctx (normalize_options arg),
              TemplateContext.otherTopics = spec_topics ctx (normalize_options arg) \<rparr>
      | None \<Rightarrow> spec_system ctx (normalize_options arg))"
  by (simp add: assemble_def Let_def or_default_flags parts_concat factsToInclude_spec
      otherTopics_of_spec spec_facts_def spec_topics_def spec_system_def spec_default_system_def
      split: option.splits)

lemma assemble_messages:
  "Prompt.messages (assemble ctx arg) =
     map (\<lambda>m. \<lparr> role = role m, content = content m \<rparr>) (Context.messages ctx)"
  by (simp add: assemble_def Let_def)

lemma trimStart_current_topic:
  "trimStart (''\<newline>Current topic: '' @ r) = ''Current topic: '' @ r"
  by (simp add: trimStart_def is_js_whitespace_def)

lemma trimEnd_append_visible:
  "visible r \<Longrightarrow> trimEnd (p @ r) = p @ trimEnd r"
proof -
  assume "visible r"
  then obtain c where "c \<in> set (rev r)" "\<not> is_js_whitespace c"
    by (auto simp add: visible_def)
  then have "dropWhile is_js_whitespace (rev r @ rev p) = dropWhile is_js_whitespace (rev r) @ rev p"
    by (rule dropWhile_append1)
  then show ?thesis by (simp add: trimEnd_def)
qed

lemma trimEnd_append_invisible:
  "\<not> visible r \<Longrightarrow> trimEnd (p @ r) = trimEnd p"
proof -
  assume "\<not> visible r"
  then have "\<forall>c \<in> set (rev r). is_js_whitespace c"
    by (simp add: visible_def)
  then have "dropWhile is_js_whitespace (rev r @ rev p) = dropWhile is_js_whitespace (rev p)"
    by (simp only: dropWhile_append2)
  then show ?thesis by (simp add: trimEnd_def)
qed

lemma trimEnd_current_topic: "trimEnd ''Current topic: '' = ''Current topic:''"
  by (simp add: trimEnd_def is_js_whitespace_def)

lemma trim_current_topic:
  "trim (''\<newline>Current topic: '' @ r) =
     (if visible r then ''Current topic: '' @ trimEnd r else ''Current topic:'')"
  using trimEnd_append_visible [of r "''Current topic: ''"]
        trimEnd_append_invisible [of r "''Current topic: ''"]
  by (simp only: trim_def trimStart_current_topic trimEnd_current_topic split: if_splits) simp

lemma visible_append: "visible (a @ b) \<longleftrightarrow> visible a \<or> visible b"
  by (auto simp add: visible_def)

lemma visible_facts_section:
  "inclFacts \<Longrightarrow> fs \<noteq> [] \<Longrightarrow> visible (spec_facts_section inclFacts fs)"
  by (simp add: spec_facts_section_def visible_def is_js_whitespace_def)

lemma visible_topics_section:
  "inclOther \<Longrightarrow> others \<noteq> [] \<Longrightarrow> visible (spec_topics_section inclOther others)"
  by (simp add: spec_topics_section_def visible_def is_js_whitespace_def)

lemma assemble_eq:
  "assemble ctx arg =
     \<lparr> system =
         (case template (normalize_options arg) of
            Some t \<Rightarrow>
              t \<lparr> TemplateContext.systemPrompt = spec_systemPrompt (normalize_options arg),
                  TemplateContext.branchTopic = Context.branchTopic ctx,
                  TemplateContext.facts = spec_facts ctx (normalize_options arg),
                  TemplateContext.otherTopics = spec_topics ctx (normalize_options arg) \<rparr>
          | None \<Rightarrow> spec_system ctx (normalize_options arg)),
       messages = spec_messages ctx \<rparr>"
proof -
  have "assemble ctx arg =
      \<lparr> system = system (assemble ctx arg), messages = Prompt.messages (assemble ctx arg) \<rparr>"
    by simp
  then show ?thesis
    by (simp only: assemble_system assemble_messages spec_messages_def)
qed

lemma buildPrompt_fetched:
  "fst (getContext s net branch) = Inr (Some ctx) \<Longrightarrow>
     fst (buildPrompt s net branch arg) = Inr (assemble ctx arg)"
  by (simp add: buildPrompt_fst)

lemma getContext_context_net:
  "fst (getContext s (context_net ctx) branch) = Inr (Some ctx)"
  by (simp add: getContext_def request_result settle_parsed context_net_def response_ok_def)

lemma spec_select_facts_current:
  "spec_select_facts False bs = spec_select_facts True (filter isCurrent bs)"
  by (induction bs) simp_all

lemma spec_select_facts_all:
  "spec_select_facts True bs =
     concat (map (\<lambda>b. map (\<lambda>f. \<lparr> key = key f, value = value f \<rparr>) (BranchFactSet.facts b)) bs)"
  by (induction bs) simp_all

lemma spec_facts_cases:
  "spec_facts ctx opts =
     (if includeFacts opts = Some False then []
      else spec_select_facts (factsFromAllBranches opts = Some True) (allFacts ctx))"
  by (cases "includeFacts opts"; cases "factsFromAllBranches opts")
     (auto simp add: spec_facts_def spec_includeFacts_def spec_factsFromAllBranches_def)

lemma spec_facts_section_cases:
  "spec_facts_section (spec_includeFacts opts) (spec_facts ctx opts)
     = spec_facts_section True
         (if includeFacts opts = Some False then []
          else spec_select_facts (factsFromAllBranches opts = Some True) (allFacts ctx))"
proof -
  have "spec_facts_section (spec_includeFacts opts) (spec_facts ctx opts)
     = spec_facts_section True (spec_facts ctx opts)"
    by (simp add: spec_facts_section_def spec_facts_def)
  then show ?thesis by (simp only: spec_facts_cases)
qed








lemmas assemble_eval =
  assemble_def no_options_def or_default_def factsToInclude_def otherTopics_of_def parts_def
  factsBlock_def flatMap_def trim_def trimStart_def trimEnd_def is_js_whitespace_def

lemmas spec_eval =
  spec_system_def spec_default_system_def spec_systemPrompt_def spec_includeFacts_def
  spec_includeOtherTopics_def spec_factsFromAllBranches_def spec_facts_def spec_topics_def
  spec_facts_section_def spec_topics_section_def no_options_def
  trim_def trimStart_def trimEnd_def is_js_whitespace_def

section \<open>Path prefix and hosted mode\<close>

text \<open>
  Claim C1. With the base URL of the hosted gateway, the six operations are to issue
  their requests on paths without the \<open>/api/v1\<close> prefix, and an explicit \<open>hosted\<close>
  flag is to take precedence. The constructor reads neither the flag nor the host:
  on the README's hosted configuration, whatever the flag \<open>h\<close> is, every operation
  fetches the URL that still carries \<open>/api/v1\<close>.
\<close>

theorem hosted_gateway_requests_keep_api_prefix:
  fixes net :: "FetchCall \<Rightarrow> unit NetOutcome"
    and cnet :: "FetchCall \<Rightarrow> (unit, unit) Context NetOutcome"
  shows
  "map url (fetched (world (snd (route (fresh_state (hosted_config h)) net ''conv-123'' ''hi'' None))))
     = [''https://api.driftos.dev/api/v1/drift/route'']
   \<and> map url (fetched (world (snd (getBranches (fresh_state (hosted_config h)) net ''conv-123''))))
     = [''https://api.driftos.dev/api/v1/drift/branches/conv-123'']
   \<and> map url (fetched (world (snd (getContext (fresh_state (hosted_config h)) net ''b1''))))
     = [''https://api.driftos.dev/api/v1/context/b1'']
   \<and> map url (fetched (world (snd (extractFacts (fresh_state (hosted_config h)) net ''b1''))))
     = [''https://api.driftos.dev/api/v1/facts/b1/extract'']
   \<and> map url (fetched (world (snd (getFacts (fresh_state (hosted_config h)) net ''b1''))))
     = [''https://api.driftos.dev/api/v1/facts/b1'']
   \<and> map url (fetched (world (snd (buildPrompt (fresh_state (hosted_config h)) cnet ''b1'' Omitted))))
     = [''https://api.driftos.dev/api/v1/context/b1'']"
  by (simp add: route_def getBranches_def getContext_def extractFacts_def getFacts_def
      buildPrompt_snd request_fetched hosted_client fresh_world idle_world_def
      request_call_def fetch_call_def)

theorem hosted_gateway_requests_keep_api_prefix_witness:
  "map url (fetched (world (snd (route (fresh_state (hosted_config None))
       (constant_net (NoResponse :: unit NetOutcome)) ''conv-123'' ''hi'' None))))
     = [''https://api.driftos.dev/api/v1/drift/route'']"
  using hosted_gateway_requests_keep_api_prefix
          [of None "constant_net NoResponse" "constant_net NoResponse"]
  by simp

section \<open>The response envelope\<close>

text \<open>
  Claim C2, as stated, fails. It says that on any non-success HTTP status with an
  envelope whose \<open>success\<close> is true the call fails with a message that contains the
  status code. Line 50 prefers \<open>error.message\<close> whenever it is present, whatever
  \<open>success\<close> says: on status 500 with \<open>{success: true, error: {message: "boom"}}\<close>
  the message is \<open>boom\<close>, which does not contain \<open>500\<close>.
\<close>

theorem request_success_envelope_counterexample:
  "fst (request (fresh_state (local_config ''http://localhost:3000'' None))
          (constant_net (Responded 500
             (Parsed \<lparr> success = True, data = Some (), error = Some \<lparr> message = Some ''boom'' \<rparr> \<rparr>)))
          ''GET'' ''/api/v1/facts/b1'' JUndefined)
     = Inl (RequestError ''boom'')
   \<and> \<not> response_ok 500
   \<and> \<not> sublist (string_of_nat 500) ''boom''"
  by (simp add: request_result settle_parsed constant_net_def response_ok_def error_message_def
      envelope_message_def string_of_nat.simps digit_char_def sublist_Cons_right)

text \<open>
  Claim C2, amended. For every HTTP status and every envelope: when the status is
  outside the success range or \<open>success\<close> is false, \<open>request\<close> fails with a
  RequestError whose message is exactly \<open>error.message\<close> if that is present (be
  \<open>success\<close> true or false), and otherwise the text \<open>Request failed: \<close> followed by
  the status code, which therefore contains the status code; with a success status and
  \<open>success\<close> true it returns \<open>envelope.data\<close>.
\<close>

theorem request_unwraps_envelope:
  assumes "net (request_call s meth path b) = Responded status (Parsed env)"
  shows
  "(envelope_message env = Some X \<and> (\<not> success env \<or> \<not> response_ok status)
      \<longrightarrow> fst (request s net meth path b) = Inl (RequestError X))
   \<and> (envelope_message env = None \<and> (\<not> success env \<or> \<not> response_ok status)
      \<longrightarrow> fst (request s net meth path b)
            = Inl (RequestError (''Request failed: '' @ string_of_nat status))
          \<and> sublist (string_of_nat status) (''Request failed: '' @ string_of_nat status))
   \<and> (success env \<and> response_ok status
      \<longrightarrow> fst (request s net meth path b) = Inr (data env))"
proof -
  have contained: "sublist (string_of_nat status) (''Request failed: '' @ string_of_nat status)"
    by (rule sublist_append_leftI)
  have result: "fst (request s net meth path b) =
     (if response_ok status \<and> success env then Inr (data env)
      else Inl (RequestError (error_message env status)))"
    using assms by (simp only: request_result settle_parsed)
  show ?thesis
    using contained by (auto simp only: result error_message_def option.case split: if_splits)
qed

theorem request_unwraps_envelope_witness:
  "fst (request (fresh_state (local_config ''http://localhost:3000'' None))
          (constant_net (Responded 404
             (Parsed \<lparr> success = False, data = (None :: unit option),
                       error = Some \<lparr> message = Some ''X'' \<rparr> \<rparr>)))
          ''GET'' ''/api/v1/facts/b1'' JUndefined)
     = Inl (RequestError ''X'')
   \<and> fst (request (fresh_state (local_config ''http://localhost:3000'' None))
          (constant_net (Responded 404
             (Parsed \<lparr> success = False, data = (None :: unit option), error = None \<rparr>)))
          ''GET'' ''/api/v1/facts/b1'' JUndefined)
     = Inl (RequestError ''Request failed: 404'')
   \<and> fst (request (fresh_state (local_config ''http://localhost:3000'' None))
          (constant_net (Responded 200
             (Parsed \<lparr> success = True, data = Some (), error = None \<rparr>)))
          ''GET'' ''/api/v1/facts/b1'' JUndefined)
     = Inr (Some ())"
  using
    request_unwraps_envelope
      [of "constant_net (Responded 404
             (Parsed \<lparr> success = False, data = (None :: unit option),
                       error = Some \<lparr> message = Some ''X'' \<rparr> \<rparr>))"
          "fresh_state (local_config ''http://localhost:3000'' None)"
          "''GET''" "''/api/v1/facts/b1''" JUndefined 404 _ "''X''"]
    request_unwraps_envelope
      [of "constant_net (Responded 404
             (Parsed \<lparr> success = False, data = (None :: unit option), error = None \<rparr>))"
          "fresh_state (local_config ''http://localhost:3000'' None)"
          "''GET''" "''/api/v1/facts/b1''" JUndefined 404 _ "''X''"]
    request_unwraps_envelope
      [of "constant_net (Responded 200
             (Parsed \<lparr> success = True, data = Some (), error = None \<rparr>))"
          "fresh_state (local_config ''http://localhost:3000'' None)"
          "''GET''" "''/api/v1/facts/b1''" JUndefined 200 _ "''X''"]
  by (simp add: constant_net_def envelope_message_def response_ok_def string_of_nat.simps
      digit_char_def)

section \<open>Timeout and timer\<close>

text \<open>
  Claim C3. Time is the platform's clock; the network says after how many
  milliseconds a complete response or a failure is there, if ever. The timer of
  line 27 is due \<open>timeoutMillis\<close> after the call (a positive \<open>timeoutMillis\<close>, as
  the configuration requires). If the call is still pending \<open>timeoutMillis\<close> after
  it was made, \<open>request\<close> fails with the abort rejection (the specification's
  TimeoutError) and the controller whose signal was handed to \<open>fetch\<close> has been
  aborted. (A \<open>timeoutMillis\<close> below 1 or above \<open>2^31 - 1\<close> makes the timer due
  after one millisecond.) Conversely, on a platform where nothing else aborts that
  controller, a response or failure that is there before \<open>timeoutMillis\<close> (up to
  \<open>2^31 - 1\<close>) is handled as if it had come at once, and nothing is aborted.
  \<open>request\<close> returns
  on every outcome; when it has returned (success, HTTP error, parse error, type
  error on a \<open>null\<close> body, network error, timeout) the timer that the call
  scheduled is no longer scheduled, no timer has been added, every other timer not
  yet due is still scheduled, and exactly one call has gone out.
\<close>

theorem request_aborts_on_timeout_and_clears_timer:
  "(0 < timeout (this s)
      \<and> pending_after (timeout (this s)) (net (request_call s meth path b))
     \<longrightarrow> fst (request s net meth path b) = Inl TimeoutError
        \<and> signal (request_call s meth path b) = Some (nextHandle (world s))
        \<and> nextHandle (world s) \<in> set (aborted (world (snd (request s net meth path b)))))
   \<and> ((timeout (this s) < 1 \<or> 2147483647 < timeout (this s))
      \<and> pending_after 1 (net (request_call s meth path b))
     \<longrightarrow> fst (request s net meth path b) = Inl TimeoutError
        \<and> nextHandle (world s) \<in> set (aborted (world (snd (request s net meth path b)))))
   \<and> (0 < timeout (this s) \<and> timeout (this s) \<le> 2147483647
      \<and> arrival (net (request_call s meth path b)) = Some a \<and> int a < timeout (this s)
      \<and> nextHandle (world s) \<notin> set (aborted (world s))
      \<and> (\<forall>tm \<in> set (armed (world s)). aborts tm \<noteq> nextHandle (world s))
     \<longrightarrow> fst (request s net meth path b) = fst (request s (at_once \<circ> net) meth path b)
        \<and> fst (request s net meth path b) \<noteq> Inl TimeoutError
        \<and> nextHandle (world s) \<notin> set (aborted (world (snd (request s net meth path b)))))
   \<and> fst (request s net meth path b) \<noteq> Inl NeverSettles
   \<and> Suc (nextHandle (world s))
        \<notin> handle ` set (armed (world (snd (request s net meth path b))))
   \<and> set (armed (world (snd (request s net meth path b)))) \<subseteq> set (armed (world s))
   \<and> (\<forall>tm \<in> set (armed (world s)).
         handle tm \<noteq> Suc (nextHandle (world s))
         \<and> now (world (snd (request s net meth path b))) < due tm
         \<longrightarrow> tm \<in> set (armed (world (snd (request s net meth path b)))))
   \<and> fetched (world (snd (request s net meth path b)))
        = fetched (world s) @ [request_call s meth path b]"
proof -
  let ?call = "request_call s meth path b"
  let ?w = "sent_world s ?call"
  let ?r = "request s net meth path b"
  let ?w3 = "snd (settle ?call (net ?call) ?w :: (error + 'a option) \<times> World)"
  have timeout: "0 < timeout (this s) \<and> pending_after (timeout (this s)) (net ?call)
     \<longrightarrow> fst ?r = Inl TimeoutError
        \<and> signal ?call = Some (nextHandle (world s))
        \<and> nextHandle (world s) \<in> set (aborted (world (snd ?r)))"
    using pending_after_mono [OF effective_delay_le, of "timeout (this s)" "net ?call"]
    by (simp add: request_result request_aborted request_call_signal settle_sent_timeout)
  have clamped: "(timeout (this s) < 1 \<or> 2147483647 < timeout (this s))
      \<and> pending_after 1 (net ?call)
     \<longrightarrow> fst ?r = Inl TimeoutError
        \<and> nextHandle (world s) \<in> set (aborted (world (snd ?r)))"
  proof (intro impI, elim conjE)
    assume "timeout (this s) < 1 \<or> 2147483647 < timeout (this s)"
      and pending: "pending_after 1 (net ?call)"
    then have "effective_delay (timeout (this s)) = 1"
      by (auto simp add: effective_delay_def)
    with pending have "pending_after (effective_delay (timeout (this s))) (net ?call)"
      by simp
    then show "fst ?r = Inl TimeoutError
        \<and> nextHandle (world s) \<in> set (aborted (world (snd ?r)))"
      by (simp add: request_result request_aborted settle_sent_timeout)
  qed
  have in_time: "0 < timeout (this s) \<and> timeout (this s) \<le> 2147483647
      \<and> arrival (net ?call) = Some a \<and> int a < timeout (this s)
      \<and> nextHandle (world s) \<notin> set (aborted (world s))
      \<and> (\<forall>tm \<in> set (armed (world s)). aborts tm \<noteq> nextHandle (world s))
     \<longrightarrow> fst ?r = fst (request s (at_once \<circ> net) meth path b)
        \<and> fst ?r \<noteq> Inl TimeoutError
        \<and> nextHandle (world s) \<notin> set (aborted (world (snd ?r)))"
  proof (intro impI, elim conjE)
    assume T: "0 < timeout (this s)" "timeout (this s) \<le> 2147483647"
      and arr: "arrival (net ?call) = Some a" "int a < timeout (this s)"
      and fresh: "nextHandle (world s) \<notin> set (aborted (world s))"
        "\<forall>tm \<in> set (armed (world s)). aborts tm \<noteq> nextHandle (world s)"
    note facts = settle_sent_in_time [where outcome = "net ?call" and call = ?call,
        OF fresh T arr, of meth path b]
    show "fst ?r = fst (request s (at_once \<circ> net) meth path b)
        \<and> fst ?r \<noteq> Inl TimeoutError
        \<and> nextHandle (world s) \<notin> set (aborted (world (snd ?r)))"
      unfolding request_result request_aborted o_apply using facts by blast
  qed
  have returns: "fst ?r \<noteq> Inl NeverSettles"
    by (simp add: request_result settle_sent_returns)
  have pass: "passes ?w ?w3" by (rule settle_passes)
  have cleared: "Suc (nextHandle (world s)) \<notin> handle ` set (armed (world (snd ?r)))"
    by (auto simp add: request_armed)
  have no_new: "set (armed (world (snd ?r))) \<subseteq> set (armed (world s))"
    using pass by (auto simp add: request_armed passes_def sent_world_def)
  have kept: "\<forall>tm \<in> set (armed (world s)).
         handle tm \<noteq> Suc (nextHandle (world s)) \<and> now (world (snd ?r)) < due tm
         \<longrightarrow> tm \<in> set (armed (world (snd ?r)))"
    using pass by (auto simp add: request_armed request_now passes_def sent_world_def)
  from timeout clamped in_time returns cleared no_new kept show ?thesis
    by (simp only: request_fetched) blast
qed

theorem request_aborts_on_timeout_and_clears_timer_witness:
  "fst (request (fresh_state (local_config ''http://localhost:3000'' None))
          (constant_net (RespondedAfter 10001 200
             (Parsed \<lparr> success = True, data = Some (), error = None \<rparr>)))
          ''GET'' ''/api/v1/facts/b1'' JUndefined)
     = Inl TimeoutError
   \<and> 0 \<in> set (aborted (world (snd (request (fresh_state (local_config ''http://localhost:3000'' None))
          (constant_net (RespondedAfter 10001 200
             (Parsed \<lparr> success = True, data = Some (), error = None \<rparr>)))
          ''GET'' ''/api/v1/facts/b1'' JUndefined))))
   \<and> armed (world (snd (request (fresh_state (local_config ''http://localhost:3000'' None))
          (constant_net (RespondedAfter 10001 200
             (Parsed \<lparr> success = True, data = Some (), error = None \<rparr>)))
          ''GET'' ''/api/v1/facts/b1'' JUndefined)))
     = []
   \<and> fst (request (fresh_state (local_config ''http://localhost:3000'' None))
          (constant_net (RespondedAfter 9999 200
             (Parsed \<lparr> success = True, data = Some (), error = None \<rparr>)))
          ''GET'' ''/api/v1/facts/b1'' JUndefined)
     = Inr (Some ())
   \<and> aborted (world (snd (request (fresh_state (local_config ''http://localhost:3000'' None))
          (constant_net (RespondedAfter 9999 200
             (Parsed \<lparr> success = True, data = Some (), error = None \<rparr>)))
          ''GET'' ''/api/v1/facts/b1'' JUndefined)))
     = []"
  using request_aborts_on_timeout_and_clears_timer
      [of "fresh_state (local_config ''http://localhost:3000'' None)"
          "constant_net (RespondedAfter 10001 200
             (Parsed \<lparr> success = True, data = Some (), error = None \<rparr>))"
          "''GET''" "''/api/v1/facts/b1''" JUndefined 0]
    request_aborts_on_timeout_and_clears_timer
      [of "fresh_state (local_config ''http://localhost:3000'' None)"
          "constant_net (RespondedAfter 9999 200
             (Parsed \<lparr> success = True, data = Some (), error = None \<rparr>))"
          "''GET''" "''/api/v1/facts/b1''" JUndefined 9999]
  by (simp add: constant_net_def fresh_state_def idle_world_def local_config_def
      new_DriftClient_def pending_after_def request_call_def fetch_call_def
      request_result request_aborted request_armed sent_world_def settle_def abort_by_def
      advance_def answered_def response_ok_def comp_def effective_delay_def
      strip_trailing_slash_def request_headers_def)

section \<open>The default template\<close>

text \<open>
  Claim C4. Let the context fetched for the branch be \<open>ctx\<close>. For every options
  value without a template, for every legacy string and for an omitted argument,
  \<open>buildPrompt\<close> returns the messages of the context and, as system string, the
  trimmed concatenation, with nothing in between, of the configured system prompt
  (the field of the options object, the legacy string itself, or the default),
  \<open>\nCurrent topic: \<close> and the branch topic, the \<open>Known facts\<close> section iff
  includeFacts holds and the selected fact list is not empty (one line
  \<open>- key: value\<close> per fact, joined by newlines), and the \<open>Other topics discussed\<close>
  section iff includeOtherTopics holds and the list of other topics is not empty
  (joined by a comma and a blank). On the example of section 8 with default options
  it is the expected string, character by character.
\<close>

theorem default_template_system:
  assumes "fst (getContext s net branch) = Inr (Some ctx)"
  shows
  "(template opts = None \<longrightarrow>
      fst (buildPrompt s net branch (Options opts))
        = Inr \<lparr> system = spec_system ctx opts, messages = spec_messages ctx \<rparr>)
   \<and> fst (buildPrompt s net branch (LegacyString p))
        = Inr \<lparr> system =
                  spec_default_system p (Context.branchTopic ctx)
                    True (spec_select_facts False (allFacts ctx))
                    True (spec_other_topics (allFacts ctx)),
                messages = spec_messages ctx \<rparr>
   \<and> fst (buildPrompt s net branch Omitted)
        = Inr \<lparr> system =
                  spec_default_system ''You are a helpful assistant.'' (Context.branchTopic ctx)
                    True (spec_select_facts False (allFacts ctx))
                    True (spec_other_topics (allFacts ctx)),
                messages = spec_messages ctx \<rparr>
   \<and> system (assemble example_context Omitted) =
       ''You are a helpful assistant.\<newline>Current topic: Paris trip planning\<newline>Known facts:\<newline>- destination: Paris\<newline>Other topics discussed: Budget tracking''"
proof -
  have a: "template opts = None \<longrightarrow>
      fst (buildPrompt s net branch (Options opts))
        = Inr \<lparr> system = spec_system ctx opts, messages = spec_messages ctx \<rparr>"
    by (simp add: buildPrompt_fetched [OF assms] assemble_eq)
  have b: "fst (buildPrompt s net branch (LegacyString p))
        = Inr \<lparr> system =
                  spec_default_system p (Context.branchTopic ctx)
                    True (spec_select_facts False (allFacts ctx))
                    True (spec_other_topics (allFacts ctx)),
                messages = spec_messages ctx \<rparr>"
    by (simp add: buildPrompt_fetched [OF assms] assemble_eq no_options_def spec_system_def
        spec_systemPrompt_def spec_includeFacts_def spec_includeOtherTopics_def
        spec_factsFromAllBranches_def spec_facts_def spec_topics_def)
  have c: "fst (buildPrompt s net branch Omitted)
        = Inr \<lparr> system =
                  spec_default_system ''You are a helpful assistant.'' (Context.branchTopic ctx)
                    True (spec_select_facts False (allFacts ctx))
                    True (spec_other_topics (allFacts ctx)),
                messages = spec_messages ctx \<rparr>"
    by (simp add: buildPrompt_fetched [OF assms] assemble_eq no_options_def spec_system_def
        spec_systemPrompt_def spec_includeFacts_def spec_includeOtherTopics_def
        spec_factsFromAllBranches_def spec_facts_def spec_topics_def)
  have d: "system (assemble example_context Omitted) =
       ''You are a helpful assistant.\<newline>Current topic: Paris trip planning\<newline>Known facts:\<newline>- destination: Paris\<newline>Other topics discussed: Budget tracking''"
    by (simp add: example_context_def assemble_eval)
  from a b c d show ?thesis by blast
qed

theorem default_template_system_witness:
  "fst (buildPrompt (fresh_state (local_config ''http://localhost:3000'' None))
         (context_net two_branch_context) ''b1''
         (Options \<lparr> PromptOptions.systemPrompt = Some ''Be brief. '',
                    includeOtherTopics = Some False, includeFacts = None,
                    factsFromAllBranches = Some True, template = None \<rparr>))
     = Inr \<lparr> system = ''Be brief. \<newline>Current topic: Paris trip planning\<newline>Known facts:\<newline>- budget: 2000\<newline>- destination: Paris\<newline>- month: May'',
             messages = [\<lparr> role = ''user'', content = ''I want to plan a trip to Paris'' \<rparr>,
                         \<lparr> role = ''assistant'', content = ''When do you travel?'' \<rparr>] \<rparr>
   \<and> fst (buildPrompt (fresh_state (local_config ''http://localhost:3000'' None))
         (context_net two_branch_context) ''b1'' (LegacyString ''Be brief.''))
     = Inr \<lparr> system = ''Be brief.\<newline>Current topic: Paris trip planning\<newline>Known facts:\<newline>- destination: Paris\<newline>- month: May\<newline>Other topics discussed: Budget tracking'',
             messages = [\<lparr> role = ''user'', content = ''I want to plan a trip to Paris'' \<rparr>,
                         \<lparr> role = ''assistant'', content = ''When do you travel?'' \<rparr>] \<rparr>"
  using default_template_system
      [OF getContext_context_net,
       where opts = "\<lparr> PromptOptions.systemPrompt = Some ''Be brief. '',
                    includeOtherTopics = Some False, includeFacts = None,
                    factsFromAllBranches = Some True, template = None \<rparr>"
         and ctx = two_branch_context and p = "''Be brief.''"
         and s = "fresh_state (local_config ''http://localhost:3000'' None)" and branch = "''b1''"]
  by (simp add: two_branch_context_def spec_eval spec_messages_def)

section \<open>Selection of facts\<close>

text \<open>
  Claim C5. Let the context fetched for the branch be \<open>ctx\<close>, and let \<open>buildPrompt\<close>
  be given an options object. The fact list that \<open>buildPrompt\<close> hands to a template,
  and that it prints in the \<open>Known facts\<close> section of the default template, is empty
  if the option includeFacts is false, and otherwise that of the branches satisfying
  factsFromAllBranches or isCurrent, flattened to key and value in branch order and
  then fact order. With includeFacts false the default system string consists of the
  system prompt, the current topic and the other topics only: it has no
  \<open>Known facts\<close> section, whatever \<open>allFacts\<close> holds. With factsFromAllBranches
  false or absent the list is that of the current branches only; with it true, that
  of all branches.
\<close>

theorem fact_selection:
  assumes "fst (getContext s net branch) = Inr (Some ctx)"
  shows
  "(template opts = Some t \<longrightarrow>
      fst (buildPrompt s net branch (Options opts))
        = Inr \<lparr> system =
                  t \<lparr> TemplateContext.systemPrompt = spec_systemPrompt opts,
                      TemplateContext.branchTopic = Context.branchTopic ctx,
                      TemplateContext.facts =
                        (if includeFacts opts = Some False then []
                         else spec_select_facts (factsFromAllBranches opts = Some True)
                                (allFacts ctx)),
                      TemplateContext.otherTopics = spec_topics ctx opts \<rparr>,
                messages = spec_messages ctx \<rparr>)
   \<and> (template opts = None \<longrightarrow>
      fst (buildPrompt s net branch (Options opts))
        = Inr \<lparr> system =
                  trim (spec_systemPrompt opts @ ''\<newline>Current topic: '' @ Context.branchTopic ctx @
                        spec_facts_section True
                          (if includeFacts opts = Some False then []
                           else spec_select_facts (factsFromAllBranches opts = Some True)
                                  (allFacts ctx)) @
                        spec_topics_section (spec_includeOtherTopics opts) (spec_topics ctx opts)),
                messages = spec_messages ctx \<rparr>)
   \<and> (template opts = None \<and> includeFacts opts = Some False \<longrightarrow>
      fst (buildPrompt s net branch (Options opts))
        = Inr \<lparr> system =
                  trim (spec_systemPrompt opts @ ''\<newline>Current topic: '' @ Context.branchTopic ctx @
                        spec_topics_section (spec_includeOtherTopics opts) (spec_topics ctx opts)),
                messages = spec_messages ctx \<rparr>)
   \<and> spec_select_facts False (allFacts ctx)
        = spec_select_facts True (filter isCurrent (allFacts ctx))
   \<and> spec_select_facts True (allFacts ctx)
        = concat (map (\<lambda>b. map (\<lambda>f. \<lparr> key = key f, value = value f \<rparr>) (BranchFactSet.facts b))
                    (allFacts ctx))"
proof -
  have a: "template opts = Some t \<longrightarrow>
      fst (buildPrompt s net branch (Options opts))
        = Inr \<lparr> system =
                  t \<lparr> TemplateContext.systemPrompt = spec_systemPrompt opts,
                      TemplateContext.branchTopic = Context.branchTopic ctx,
                      TemplateContext.facts =
                        (if includeFacts opts = Some False then []
                         else spec_select_facts (factsFromAllBranches opts = Some True)
                                (allFacts ctx)),
                      TemplateContext.otherTopics = spec_topics ctx opts \<rparr>,
                messages = spec_messages ctx \<rparr>"
    by (simp add: buildPrompt_fetched [OF assms] assemble_eq spec_facts_cases)
  have b: "template opts = None \<longrightarrow>
      fst (buildPrompt s net branch (Options opts))
        = Inr \<lparr> system =
                  trim (spec_systemPrompt opts @ ''\<newline>Current topic: '' @ Context.branchTopic ctx @
                        spec_facts_section True
                          (if includeFacts opts = Some False then []
                           else spec_select_facts (factsFromAllBranches opts = Some True)
                                  (allFacts ctx)) @
                        spec_topics_section (spec_includeOtherTopics opts) (spec_topics ctx opts)),
                messages = spec_messages ctx \<rparr>"
    by (simp add: buildPrompt_fetched [OF assms] assemble_eq spec_system_def
        spec_default_system_def spec_facts_section_cases)
  have c: "template opts = None \<and> includeFacts opts = Some False \<longrightarrow>
      fst (buildPrompt s net branch (Options opts))
        = Inr \<lparr> system =
                  trim (spec_systemPrompt opts @ ''\<newline>Current topic: '' @ Context.branchTopic ctx @
                        spec_topics_section (spec_includeOtherTopics opts) (spec_topics ctx opts)),
                messages = spec_messages ctx \<rparr>"
    using b by (simp add: spec_facts_section_def)
  have d: "spec_select_facts False (allFacts ctx)
        = spec_select_facts True (filter isCurrent (allFacts ctx))"
    by (rule spec_select_facts_current)
  have e: "spec_select_facts True (allFacts ctx)
        = concat (map (\<lambda>b. map (\<lambda>f. \<lparr> key = key f, value = value f \<rparr>) (BranchFactSet.facts b))
                    (allFacts ctx))"
    by (rule spec_select_facts_all)
  from a b c d e show ?thesis by (intro conjI)
qed

theorem fact_selection_witness:
  "fst (buildPrompt (fresh_state (local_config ''http://localhost:3000'' None))
         (context_net two_branch_context) ''b1''
         (Options (no_options\<lparr> factsFromAllBranches := Some True,
                               template := Some listing_template \<rparr>)))
     = Inr \<lparr> system = ''You are a helpful assistant.|Paris trip planning|budget=2000;destination=Paris;month=May;|Budget tracking'',
             messages = [\<lparr> role = ''user'', content = ''I want to plan a trip to Paris'' \<rparr>,
                         \<lparr> role = ''assistant'', content = ''When do you travel?'' \<rparr>] \<rparr>
   \<and> fst (buildPrompt (fresh_state (local_config ''http://localhost:3000'' None))
         (context_net two_branch_context) ''b1''
         (Options (no_options\<lparr> template := Some listing_template \<rparr>)))
     = Inr \<lparr> system = ''You are a helpful assistant.|Paris trip planning|destination=Paris;month=May;|Budget tracking'',
             messages = [\<lparr> role = ''user'', content = ''I want to plan a trip to Paris'' \<rparr>,
                         \<lparr> role = ''assistant'', content = ''When do you travel?'' \<rparr>] \<rparr>
   \<and> fst (buildPrompt (fresh_state (local_config ''http://localhost:3000'' None))
         (context_net two_branch_context) ''b1''
         (Options (no_options\<lparr> includeFacts := Some False, factsFromAllBranches := Some True \<rparr>)))
     = Inr \<lparr> system = ''You are a helpful assistant.\<newline>Current topic: Paris trip planning\<newline>Other topics discussed: Budget tracking'',
             messages = [\<lparr> role = ''user'', content = ''I want to plan a trip to Paris'' \<rparr>,
                         \<lparr> role = ''assistant'', content = ''When do you travel?'' \<rparr>] \<rparr>"
  using
    fact_selection [OF getContext_context_net,
       where opts = "no_options\<lparr> factsFromAllBranches := Some True,
                               template := Some listing_template \<rparr>"
         and t = listing_template and ctx = two_branch_context
         and s = "fresh_state (local_config ''http://localhost:3000'' None)" and branch = "''b1''"]
    fact_selection [OF getContext_context_net,
       where opts = "no_options\<lparr> template := Some listing_template \<rparr>"
         and t = listing_template and ctx = two_branch_context
         and s = "fresh_state (local_config ''http://localhost:3000'' None)" and branch = "''b1''"]
    fact_selection [OF getContext_context_net,
       where opts = "no_options\<lparr> includeFacts := Some False, factsFromAllBranches := Some True \<rparr>"
         and t = listing_template and ctx = two_branch_context
         and s = "fresh_state (local_config ''http://localhost:3000'' None)" and branch = "''b1''"]
  by (simp add: two_branch_context_def spec_eval spec_messages_def listing_template_def)

section \<open>Custom templates and messages\<close>

text \<open>
  Claim C6. Let the context fetched for the branch be \<open>ctx\<close>. With a template in the
  options, \<open>buildPrompt\<close> returns as system string what the template returns, as it
  is, neither built by the default template nor trimmed; the template is applied to
  the configured system prompt of the options (the default if there is none), the
  topic of the context, the facts of step 2 and the other topics of step 3, and what
  it returns does not depend on the messages of the context. For every argument the
  messages returned are those of the context projected to role and content, in
  order, none dropped, whether or not a template is given.
\<close>

theorem custom_template_system_and_messages:
  assumes "fst (getContext s net branch) = Inr (Some ctx)"
  shows
  "(template opts = Some t \<longrightarrow>
      fst (buildPrompt s net branch (Options opts))
        = Inr \<lparr> system =
                  t \<lparr> TemplateContext.systemPrompt = spec_systemPrompt opts,
                      TemplateContext.branchTopic = Context.branchTopic ctx,
                      TemplateContext.facts = spec_facts ctx opts,
                      TemplateContext.otherTopics = spec_topics ctx opts \<rparr>,
                messages = spec_messages ctx \<rparr>)
   \<and> (case fst (buildPrompt s net branch arg) of
         Inl e \<Rightarrow> False
       | Inr p \<Rightarrow> Prompt.messages p = spec_messages ctx)
   \<and> system (assemble (ctx\<lparr> Context.messages := ms \<rparr>) arg) = system (assemble ctx arg)
   \<and> Prompt.messages (assemble ctx arg)
       = map (\<lambda>m. \<lparr> role = role m, content = content m \<rparr>) (Context.messages ctx)
   \<and> Prompt.messages (assemble ctx (Options (opts\<lparr> template := tmpl \<rparr>)))
       = Prompt.messages (assemble ctx (Options opts))"
proof -
  have a: "template opts = Some t \<longrightarrow>
      fst (buildPrompt s net branch (Options opts))
        = Inr \<lparr> system =
                  t \<lparr> TemplateContext.systemPrompt = spec_systemPrompt opts,
                      TemplateContext.branchTopic = Context.branchTopic ctx,
                      TemplateContext.facts = spec_facts ctx opts,
                      TemplateContext.otherTopics = spec_topics ctx opts \<rparr>,
                messages = spec_messages ctx \<rparr>"
    by (simp add: buildPrompt_fetched [OF assms] assemble_eq)
  have b: "case fst (buildPrompt s net branch arg) of
         Inl e \<Rightarrow> False
       | Inr p \<Rightarrow> Prompt.messages p = spec_messages ctx"
    by (simp add: buildPrompt_fetched [OF assms] assemble_eq)
  have c: "system (assemble (ctx\<lparr> Context.messages := ms \<rparr>) arg) = system (assemble ctx arg)"
    by (simp add: assemble_system spec_facts_def spec_topics_def spec_system_def
        split: option.splits)
  from a b c show ?thesis
    by (simp add: assemble_messages)
qed

theorem custom_template_system_and_messages_witness:
  "fst (buildPrompt (fresh_state (local_config ''http://localhost:3000'' None))
         (context_net two_branch_context) ''b1''
         (Options \<lparr> PromptOptions.systemPrompt = Some ''X'',
                    includeOtherTopics = None, includeFacts = None,
                    factsFromAllBranches = Some True, template = Some listing_template \<rparr>))
     = Inr \<lparr> system = ''X|Paris trip planning|budget=2000;destination=Paris;month=May;|Budget tracking'',
             messages = [\<lparr> role = ''user'', content = ''I want to plan a trip to Paris'' \<rparr>,
                         \<lparr> role = ''assistant'', content = ''When do you travel?'' \<rparr>] \<rparr>
   \<and> fst (buildPrompt (fresh_state (local_config ''http://localhost:3000'' None))
         (context_net two_branch_context) ''b1''
         (Options \<lparr> PromptOptions.systemPrompt = Some ''X'',
                    includeOtherTopics = Some False, includeFacts = Some False,
                    factsFromAllBranches = None, template = Some padded_topic_template \<rparr>))
     = Inr \<lparr> system = '' topic: Paris trip planning '',
             messages = [\<lparr> role = ''user'', content = ''I want to plan a trip to Paris'' \<rparr>,
                         \<lparr> role = ''assistant'', content = ''When do you travel?'' \<rparr>] \<rparr>"
  using
    custom_template_system_and_messages [OF getContext_context_net,
       where opts = "\<lparr> PromptOptions.systemPrompt = Some ''X'',
                    includeOtherTopics = None, includeFacts = None,
                    factsFromAllBranches = Some True, template = Some listing_template \<rparr>"
         and t = listing_template and ctx = two_branch_context and arg = Omitted
         and ms = "[]" and tmpl = None
         and s = "fresh_state (local_config ''http://localhost:3000'' None)" and branch = "''b1''"]
    custom_template_system_and_messages [OF getContext_context_net,
       where opts = "\<lparr> PromptOptions.systemPrompt = Some ''X'',
                    includeOtherTopics = Some False, includeFacts = Some False,
                    factsFromAllBranches = None, template = Some padded_topic_template \<rparr>"
         and t = padded_topic_template and ctx = two_branch_context and arg = Omitted
         and ms = "[]" and tmpl = None
         and s = "fresh_state (local_config ''http://localhost:3000'' None)" and branch = "''b1''"]
  by (simp add: two_branch_context_def spec_eval spec_messages_def listing_template_def
      padded_topic_template_def)

section \<open>Request headers\<close>

text \<open>
  Claim C7, as stated, fails. It quantifies over all body values, falsy ones such as
  the empty string included, and over all configured keys, the empty string included.
  Lines 31 and 35 test truthiness: with the body \<open>''\<close>, which is present, and the
  configured key \<open>''\<close>, the call goes out with no header at all.
\<close>

theorem request_headers_falsy_counterexample:
  "JString [] \<noteq> JUndefined
   \<and> DriftClient.apiKey (this (fresh_state (local_config ''http://localhost:3000'' (Some [])))) = Some []
   \<and> map headers (fetched (world (snd (request
         (fresh_state (local_config ''http://localhost:3000'' (Some [])))
         (constant_net (NoResponse :: unit NetOutcome)) ''POST'' ''/api/v1/drift/route''
         (JString []))))) = [[]]"
  by (simp add: request_fetched fresh_state_def local_config_def new_DriftClient_def
      idle_world_def request_call_def fetch_call_def request_headers_def)

text \<open>
  Claim C7, amended. For every invocation of \<open>request\<close>, the header
  \<open>Content-Type: application/json\<close> is sent if and only if the body argument is
  truthy, which is also exactly when a body is transmitted (an omitted body, \<open>null\<close>,
  \<open>false\<close>, \<open>0\<close>, \<open>NaN\<close> and the empty string send neither); and the header
  \<open>Authorization: Bearer <apiKey>\<close> is sent if and only if an apiKey is configured
  and is not the empty string. No other header is sent.
\<close>

theorem request_headers_follow_truthiness:
  "fetched (world (snd (request s net meth path b)))
     = fetched (world s) @ [request_call s meth path b]
   \<and> map_of (headers (request_call s meth path b)) ''Content-Type''
       = (if truthy b then Some ''application/json'' else None)
   \<and> map_of (headers (request_call s meth path b)) ''Authorization''
       = (case DriftClient.apiKey (this s) of
            None \<Rightarrow> None
          | Some k \<Rightarrow> if k = [] then None else Some (''Bearer '' @ k))
   \<and> fst ` set (headers (request_call s meth path b)) \<subseteq> {''Content-Type'', ''Authorization''}
   \<and> body (request_call s meth path b) = (if truthy b then Some b else None)"
  by (simp add: request_fetched request_call_def fetch_call_def request_headers_def
      split: option.splits)

theorem request_headers_follow_truthiness_witness:
  "map headers (fetched (world (snd (request
         (fresh_state (local_config ''http://localhost:3000'' (Some ''k'')))
         (constant_net (NoResponse :: unit NetOutcome)) ''POST'' ''/api/v1/drift/route''
         (JObject [(''content'', JString ''hi'')])))))
     = [[(''Content-Type'', ''application/json''), (''Authorization'', ''Bearer k'')]]"
  using request_headers_follow_truthiness
      [of "fresh_state (local_config ''http://localhost:3000'' (Some ''k''))"
          "constant_net (NoResponse :: unit NetOutcome)" "''POST''" "''/api/v1/drift/route''"
          "JObject [(''content'', JString ''hi'')]"]
  by (simp add: fresh_state_def local_config_def new_DriftClient_def
      idle_world_def request_call_def fetch_call_def request_headers_def)

section \<open>Malformed and partial contexts\<close>




section \<open>Client configuration\<close>

text \<open>
  Claim C9, as stated, fails. It says that a base URL ending in a slash and the same
  base URL without that slash yield identical request URLs, also for base URLs ending
  in more than one slash. The constructor removes one slash only:
  \<open>http://localhost:3000//\<close> and \<open>http://localhost:3000/\<close> give different URLs.
\<close>

theorem baseUrl_double_slash_counterexample:
  "url (fetch_call (new_DriftClient (local_config ''http://localhost:3000//'' None))
          ''GET'' ''/api/v1/facts/b1'' JUndefined 0)
     = ''http://localhost:3000//api/v1/facts/b1''
   \<and> url (fetch_call (new_DriftClient (local_config ''http://localhost:3000/'' None))
          ''GET'' ''/api/v1/facts/b1'' JUndefined 0)
     = ''http://localhost:3000/api/v1/facts/b1''"
  by (simp add: fetch_call_def new_DriftClient_def local_config_def strip_trailing_slash_def)

text \<open>
  Claim C9, amended. For every configuration, the client's stored baseUrl equals the
  configured baseUrl with one trailing slash removed, if there is one. So for every
  path, a baseUrl \<open>u/\<close> and the baseUrl \<open>u\<close> yield identical request URLs provided
  \<open>u\<close> does not itself end in a slash; of several trailing slashes only the last is
  removed. The apiKey is stored as configured, the timeout defaults to 10000, and no
  operation changes the stored configuration.
\<close>

theorem client_configuration:
  fixes net :: "FetchCall \<Rightarrow> 'a NetOutcome"
    and cnet :: "FetchCall \<Rightarrow> ('m, 'f) Context NetOutcome"
  shows
  "DriftClient.baseUrl (new_DriftClient config) = strip_trailing_slash (DriftConfig.baseUrl config)
   \<and> DriftClient.baseUrl (new_DriftClient (config\<lparr> DriftConfig.baseUrl := u @ ''/'' \<rparr>)) = u
   \<and> (u = [] \<or> last u \<noteq> CHR ''/''
        \<longrightarrow> DriftClient.baseUrl (new_DriftClient (config\<lparr> DriftConfig.baseUrl := u \<rparr>)) = u
          \<and> url (fetch_call (new_DriftClient (config\<lparr> DriftConfig.baseUrl := u @ ''/'' \<rparr>)) meth path b c)
              = url (fetch_call (new_DriftClient (config\<lparr> DriftConfig.baseUrl := u \<rparr>)) meth path b c))
   \<and> DriftClient.apiKey (new_DriftClient config) = DriftConfig.apiKey config
   \<and> DriftClient.timeout (new_DriftClient config)
       = (case DriftConfig.timeout config of None \<Rightarrow> 10000 | Some t \<Rightarrow> t)
   \<and> this (snd (route s net conversationId content_arg role_arg)) = this s
   \<and> this (snd (getBranches s net conversationId)) = this s
   \<and> this (snd (getContext s net branch)) = this s
   \<and> this (snd (extractFacts s net branch)) = this s
   \<and> this (snd (getFacts s net branch)) = this s
   \<and> this (snd (buildPrompt s cnet branch arg)) = this s"
  by (simp add: new_DriftClient_def strip_trailing_slash_snoc strip_trailing_slash_id
      fetch_call_def route_def getBranches_def getContext_def extractFacts_def getFacts_def
      buildPrompt_snd request_this)

theorem client_configuration_witness:
  "DriftClient.baseUrl (new_DriftClient (local_config ''http://localhost:3000/'' None))
     = ''http://localhost:3000''
   \<and> url (fetch_call (new_DriftClient (local_config ''http://localhost:3000/'' None))
          ''GET'' ''/api/v1/facts/b1'' JUndefined 0)
     = url (fetch_call (new_DriftClient (local_config ''http://localhost:3000'' None))
          ''GET'' ''/api/v1/facts/b1'' JUndefined 0)
   \<and> DriftClient.timeout (new_DriftClient (local_config ''http://localhost:3000/'' None)) = 10000"
  using client_configuration
      [of "local_config ''http://localhost:3000/'' None" "''http://localhost:3000''"
          "''GET''" "''/api/v1/facts/b1''" JUndefined 0
          "fresh_state (local_config ''http://localhost:3000/'' None)"
          "constant_net (NoResponse :: unit NetOutcome)" "''c''" "''hi''" None "''b1''"
          "constant_net (NoResponse :: (unit, unit) Context NetOutcome)" Omitted]
  by (simp add: local_config_def strip_trailing_slash_def)

section \<open>The empty system prompt\<close>

text \<open>
  Claim C10, as stated, fails. It says that with the legacy string \<open>''\<close> the system
  string begins with \<open>Current topic: \<close>, for every context. When the topic is empty
  and neither section is present, the final trim removes the blank after the colon as
  well: the system string is \<open>Current topic:\<close>.
\<close>

theorem empty_system_prompt_counterexample:
  "system (assemble untitled_context (LegacyString [])) = ''Current topic:''
   \<and> \<not> prefix ''Current topic: '' (system (assemble untitled_context (LegacyString [])))"
  by (simp add: untitled_context_def assemble_eval)

text \<open>
  Claim C10, amended. With the legacy string \<open>''\<close>, or options whose systemPrompt is
  the empty string, the empty system prompt is kept and the default is not
  substituted: a template receives the empty string, and the default template
  yields the trimmed text that starts at \<open>\nCurrent topic: \<close>. That string begins
  with \<open>Current topic:\<close>. It begins with \<open>Current topic: \<close>, blank included,
  whenever the topic has a character that is not white space or a facts or
  other-topics section follows; otherwise it is exactly \<open>Current topic:\<close>.
\<close>

theorem empty_system_prompt_kept:
  assumes "PromptOptions.systemPrompt (normalize_options arg) = Some []"
  shows
  "(template (normalize_options arg) = Some t \<longrightarrow>
      system (assemble ctx arg) =
        t \<lparr> TemplateContext.systemPrompt = [],
            TemplateContext.branchTopic = Context.branchTopic ctx,
            TemplateContext.facts = spec_facts ctx (normalize_options arg),
            TemplateContext.otherTopics = spec_topics ctx (normalize_options arg) \<rparr>)
   \<and> (template (normalize_options arg) = None \<longrightarrow>
      system (assemble ctx arg) =
        trim (''\<newline>Current topic: '' @ Context.branchTopic ctx @
              spec_facts_section (spec_includeFacts (normalize_options arg))
                (spec_facts ctx (normalize_options arg)) @
              spec_topics_section (spec_includeOtherTopics (normalize_options arg))
                (spec_topics ctx (normalize_options arg)))
      \<and> prefix ''Current topic:'' (system (assemble ctx arg))
      \<and> (visible (Context.branchTopic ctx)
          \<or> spec_facts ctx (normalize_options arg) \<noteq> []
          \<or> spec_topics ctx (normalize_options arg) \<noteq> []
            \<longrightarrow> prefix ''Current topic: '' (system (assemble ctx arg)))
      \<and> (\<not> visible (Context.branchTopic ctx)
          \<and> spec_facts ctx (normalize_options arg) = []
          \<and> spec_topics ctx (normalize_options arg) = []
            \<longrightarrow> system (assemble ctx arg) = ''Current topic:''))"
proof -
  let ?opts = "normalize_options arg"
  let ?F = "spec_facts_section (spec_includeFacts ?opts) (spec_facts ctx ?opts)"
  let ?T = "spec_topics_section (spec_includeOtherTopics ?opts) (spec_topics ctx ?opts)"
  let ?rest = "Context.branchTopic ctx @ ?F @ ?T"
  have sp: "spec_systemPrompt ?opts = []"
    using assms by (simp add: spec_systemPrompt_def)
  have tmpl: "template ?opts = Some t \<longrightarrow>
      system (assemble ctx arg) =
        t \<lparr> TemplateContext.systemPrompt = [],
            TemplateContext.branchTopic = Context.branchTopic ctx,
            TemplateContext.facts = spec_facts ctx ?opts,
            TemplateContext.otherTopics = spec_topics ctx ?opts \<rparr>"
    by (simp add: assemble_system sp)
  have F_visible: "spec_facts ctx ?opts \<noteq> [] \<Longrightarrow> visible ?F"
    by (rule visible_facts_section) (auto simp add: spec_facts_def split: if_splits)
  have T_visible: "spec_topics ctx ?opts \<noteq> [] \<Longrightarrow> visible ?T"
    by (rule visible_topics_section) (auto simp add: spec_topics_def split: if_splits)
  have F_empty: "spec_facts ctx ?opts = [] \<Longrightarrow> ?F = []"
    by (simp add: spec_facts_section_def)
  have T_empty: "spec_topics ctx ?opts = [] \<Longrightarrow> ?T = []"
    by (simp add: spec_topics_section_def)
  {
    assume none: "template ?opts = None"
    have sys: "system (assemble ctx arg) = trim (''\<newline>Current topic: '' @ ?rest)"
      using none by (simp add: assemble_system spec_system_def spec_default_system_def sp)
    have cases: "system (assemble ctx arg) =
        (if visible ?rest then ''Current topic: '' @ trimEnd ?rest else ''Current topic:'')"
      by (simp only: sys trim_current_topic)
    have p1: "prefix ''Current topic:'' (system (assemble ctx arg))"
      by (simp add: cases)
    have p2: "visible (Context.branchTopic ctx) \<or> spec_facts ctx ?opts \<noteq> []
          \<or> spec_topics ctx ?opts \<noteq> []
          \<longrightarrow> prefix ''Current topic: '' (system (assemble ctx arg))"
    proof
      assume "visible (Context.branchTopic ctx) \<or> spec_facts ctx ?opts \<noteq> []
          \<or> spec_topics ctx ?opts \<noteq> []"
      then have "visible ?rest"
        using F_visible T_visible by (auto simp only: visible_append)
      then show "prefix ''Current topic: '' (system (assemble ctx arg))"
        by (simp add: cases)
    qed
    have p3: "\<not> visible (Context.branchTopic ctx) \<and> spec_facts ctx ?opts = []
          \<and> spec_topics ctx ?opts = []
          \<longrightarrow> system (assemble ctx arg) = ''Current topic:''"
    proof
      assume h: "\<not> visible (Context.branchTopic ctx) \<and> spec_facts ctx ?opts = []
          \<and> spec_topics ctx ?opts = []"
      then have "\<not> visible ?rest"
        using F_empty T_empty by (simp add: visible_append)
      then show "system (assemble ctx arg) = ''Current topic:''"
        by (simp add: cases)
    qed
    note sys p1 p2 p3
  }
  with tmpl show ?thesis by blast
qed

theorem empty_system_prompt_kept_witness:
  "system (assemble example_context (LegacyString [])) =
     ''Current topic: Paris trip planning\<newline>Known facts:\<newline>- destination: Paris\<newline>Other topics discussed: Budget tracking''
   \<and> prefix ''Current topic: '' (system (assemble example_context (LegacyString [])))"
proof -
  have sp: "PromptOptions.systemPrompt (normalize_options (LegacyString [])) = Some []"
    by (simp add: no_options_def)
  show ?thesis
    using empty_system_prompt_kept [OF sp, of padded_topic_template example_context]
    by (simp add: example_context_def spec_eval visible_def)
qed

end
